theory Spec2Isabelle
  imports Complex_Main "HOL-Library.Log_Nat" "HOL-Library.AList"
begin


section \<open>Python values used by geektrust.py\<close>

text \<open>
  The exceptions the program can raise. The program defines no exception class of its
  own: a bad weight or a bad weight total is a \<open>ValueError\<close>, a missing dictionary key
  a \<open>KeyError\<close>, a missing attribute an \<open>AttributeError\<close>.
\<close>

datatype error = KeyError | ValueError | OverflowError | AttributeError | ZeroDivisionError

text \<open>
  A Python \<open>float\<close> is an IEEE 754 binary64 number. The finite ones are kept as the
  rational number they denote; the sign of zero is not kept, since the program never
  divides by a float and never prints one.
\<close>

datatype pyfloat = Finite rat | PosInf | NegInf | NaN

datatype pynum = PInt int | PFloat pyfloat

subsection \<open>Rounding to binary64\<close>

definition pow2 :: "int \<Rightarrow> rat" where
  "pow2 e = (if 0 \<le> e then 2 ^ nat e else 1 / 2 ^ nat (- e))"

definition round_half_even :: "rat \<Rightarrow> int" where
  "round_half_even x =
     (let f = \<lfloor>x\<rfloor>; d = x - of_int f
      in if d < 1 / 2 then f
         else if 1 / 2 < d then f + 1
         else if even f then f else f + 1)"

text \<open>For \<open>0 < x\<close>: the exponent \<open>e\<close> with \<open>2 ^ e \<le> x < 2 ^ (e + 1)\<close>.\<close>

definition ilog2 :: "rat \<Rightarrow> int" where
  "ilog2 x =
     (let (a, b) = quotient_of x;
          d = bitlen a - bitlen b
      in if pow2 d \<le> x then d else d - 1)"

text \<open>
  For \<open>0 < x\<close>: the nearest multiple of the unit in the last place, ties to the even
  significand. A binary64 significand has 53 bits, and the smallest unit is \<open>2 ^ -1074\<close>.
\<close>

definition round_mag :: "rat \<Rightarrow> rat" where
  "round_mag x =
     (let s = max (ilog2 x - 52) (- 1074)
      in of_int (round_half_even (x / pow2 s)) * pow2 s)"

definition double_of_rat :: "rat \<Rightarrow> pyfloat" where
  "double_of_rat x =
     (if x = 0 then Finite 0
      else let r = round_mag \<bar>x\<bar>
           in if pow2 1024 \<le> r then (if 0 < x then PosInf else NegInf)
              else Finite (if 0 < x then r else - r))"

subsection \<open>Arithmetic\<close>

fun float_add :: "pyfloat \<Rightarrow> pyfloat \<Rightarrow> pyfloat" where
  "float_add (Finite a) (Finite b) = double_of_rat (a + b)"
| "float_add NaN y = NaN"
| "float_add x NaN = NaN"
| "float_add PosInf NegInf = NaN"
| "float_add NegInf PosInf = NaN"
| "float_add PosInf y = PosInf"
| "float_add NegInf y = NegInf"
| "float_add x PosInf = PosInf"
| "float_add x NegInf = NegInf"

definition float_sign_inf :: "bool \<Rightarrow> pyfloat" where
  "float_sign_inf positive = (if positive then PosInf else NegInf)"

fun float_mul :: "pyfloat \<Rightarrow> pyfloat \<Rightarrow> pyfloat" where
  "float_mul (Finite a) (Finite b) = double_of_rat (a * b)"
| "float_mul NaN y = NaN"
| "float_mul x NaN = NaN"
| "float_mul (Finite a) PosInf = (if a = 0 then NaN else float_sign_inf (0 < a))"
| "float_mul (Finite a) NegInf = (if a = 0 then NaN else float_sign_inf (a < 0))"
| "float_mul PosInf (Finite b) = (if b = 0 then NaN else float_sign_inf (0 < b))"
| "float_mul NegInf (Finite b) = (if b = 0 then NaN else float_sign_inf (b < 0))"
| "float_mul PosInf PosInf = PosInf"
| "float_mul NegInf NegInf = PosInf"
| "float_mul PosInf NegInf = NegInf"
| "float_mul NegInf PosInf = NegInf"

text \<open>\<open>x / y\<close> on floats raises on a zero divisor.\<close>

fun float_truediv :: "pyfloat \<Rightarrow> pyfloat \<Rightarrow> error + pyfloat" where
  "float_truediv x (Finite b) =
     (if b = 0 then Inl ZeroDivisionError
      else case x of
        Finite a \<Rightarrow> Inr (double_of_rat (a / b))
      | PosInf \<Rightarrow> Inr (float_sign_inf (0 < b))
      | NegInf \<Rightarrow> Inr (float_sign_inf (b < 0))
      | NaN \<Rightarrow> Inr NaN)"
| "float_truediv NaN y = Inr NaN"
| "float_truediv x NaN = Inr NaN"
| "float_truediv (Finite a) y = Inr (Finite 0)"
| "float_truediv x y = Inr NaN"

text \<open>
  An \<open>int\<close> operand of a mixed operation is converted first; the conversion rounds
  and raises \<open>OverflowError\<close> beyond the binary64 range.
\<close>

definition float_of_int :: "int \<Rightarrow> error + pyfloat" where
  "float_of_int i =
     (case double_of_rat (of_int i) of
        Finite r \<Rightarrow> Inr (Finite r)
      | _ \<Rightarrow> Inl OverflowError)"

definition int_add_float :: "int \<Rightarrow> pyfloat \<Rightarrow> error + pyfloat" where
  "int_add_float i y =
     (case float_of_int i of Inl e \<Rightarrow> Inl e | Inr x \<Rightarrow> Inr (float_add x y))"

definition int_mul_float :: "int \<Rightarrow> pyfloat \<Rightarrow> error + pyfloat" where
  "int_mul_float i y =
     (case float_of_int i of Inl e \<Rightarrow> Inl e | Inr x \<Rightarrow> Inr (float_mul x y))"

text \<open>\<open>a / b\<close> on two ints: the correctly rounded quotient.\<close>

definition int_truediv :: "int \<Rightarrow> int \<Rightarrow> error + pyfloat" where
  "int_truediv a b =
     (if b = 0 then Inl ZeroDivisionError
      else case double_of_rat (of_int a / of_int b) of
        Finite r \<Rightarrow> Inr (Finite r)
      | _ \<Rightarrow> Inl OverflowError)"

text \<open>\<open>int(x)\<close>: the identity on an int, truncation toward zero on a float.\<close>

definition truncate_rat :: "rat \<Rightarrow> int" where
  "truncate_rat x = (if 0 \<le> x then \<lfloor>x\<rfloor> else \<lceil>x\<rceil>)"

fun py_int :: "pynum \<Rightarrow> error + int" where
  "py_int (PInt i) = Inr i"
| "py_int (PFloat (Finite x)) = Inr (truncate_rat x)"
| "py_int (PFloat NaN) = Inl ValueError"
| "py_int (PFloat x) = Inl OverflowError"

section \<open>Strings\<close>

text \<open>
  A \<open>str\<close> is the list of its code points; the model covers the code points below 256.
  \<open>str.lower\<close> there maps \<open>A\<close>-\<open>Z\<close> and the upper-case letters of Latin-1 to their
  lower-case partners, 32 places up.
\<close>

definition lower_char :: "char \<Rightarrow> char" where
  "lower_char c =
     (let n = (of_char c :: nat)
      in if (65 \<le> n \<and> n \<le> 90) \<or> (192 \<le> n \<and> n \<le> 222 \<and> n \<noteq> 215)
         then char_of (n + 32) else c)"

definition lower :: "string \<Rightarrow> string" where
  "lower s = map lower_char s"

definition is_space :: "char \<Rightarrow> bool" where
  "is_space c = ((of_char c :: nat) \<in> {9, 10, 11, 12, 13, 28, 29, 30, 31, 32, 133, 160})"

definition is_digit :: "char \<Rightarrow> bool" where
  "is_digit c = (48 \<le> (of_char c :: nat) \<and> (of_char c :: nat) \<le> 57)"

definition digit_val :: "char \<Rightarrow> nat" where
  "digit_val c = of_char c - 48"

definition nat_of_digits :: "string \<Rightarrow> nat" where
  "nat_of_digits ds = foldl (\<lambda>n c. 10 * n + digit_val c) 0 ds"

definition strip :: "string \<Rightarrow> string" where
  "strip s = rev (dropWhile is_space (rev (dropWhile is_space s)))"

subsection \<open>The builtin \<open>float\<close> on a string\<close>

text \<open>
  \<open>float(s)\<close> strips white space, accepts an underscore only between two digits, then
  reads an optional sign followed by \<open>inf\<close>, \<open>infinity\<close> or \<open>nan\<close> in any case, or by
  a decimal numeral with an optional fraction and an optional exponent, and rounds the
  numeral to the nearest binary64. Anything else is a \<open>ValueError\<close>.
\<close>

fun underscores_ok :: "char \<Rightarrow> string \<Rightarrow> bool" where
  "underscores_ok prev [] = (prev \<noteq> CHR ''_'')"
| "underscores_ok prev (c # cs) =
     (if c = CHR ''_'' then is_digit prev \<and> underscores_ok c cs
      else if prev = CHR ''_'' then is_digit c \<and> underscores_ok c cs
      else underscores_ok c cs)"

definition pow10 :: "int \<Rightarrow> rat" where
  "pow10 e = (if 0 \<le> e then 10 ^ nat e else 1 / 10 ^ nat (- e))"

definition parse_sign :: "string \<Rightarrow> bool \<times> string" where
  "parse_sign s =
     (case s of
        [] \<Rightarrow> (False, [])
      | c # cs \<Rightarrow>
          if c = CHR ''-'' then (True, cs)
          else if c = CHR ''+'' then (False, cs)
          else (False, s))"

definition parse_exponent :: "string \<Rightarrow> int option" where
  "parse_exponent s =
     (case s of
        [] \<Rightarrow> Some 0
      | c # cs \<Rightarrow>
          if c = CHR ''e'' \<or> c = CHR ''E'' then
            (let (neg, ds) = parse_sign cs
             in if ds \<noteq> [] \<and> list_all is_digit ds
                then Some (if neg then - int (nat_of_digits ds) else int (nat_of_digits ds))
                else None)
          else None)"

definition parse_decimal :: "string \<Rightarrow> rat option" where
  "parse_decimal s =
     (let d1 = takeWhile is_digit s;
          r1 = dropWhile is_digit s;
          (d2, r2) =
            (case r1 of
               [] \<Rightarrow> ([], [])
             | c # cs \<Rightarrow>
                 if c = CHR ''.'' then (takeWhile is_digit cs, dropWhile is_digit cs)
                 else ([], r1))
      in if d1 = [] \<and> d2 = [] then None
         else case parse_exponent r2 of
           None \<Rightarrow> None
         | Some e \<Rightarrow> Some (of_nat (nat_of_digits (d1 @ d2)) * pow10 (e - int (length d2))))"

definition py_float :: "string \<Rightarrow> error + pyfloat" where
  "py_float s =
     (let t = strip s
      in if \<not> underscores_ok (CHR 0x00) t then Inl ValueError
         else
           let (neg, r) = parse_sign (filter (\<lambda>c. c \<noteq> CHR ''_'') t)
           in if lower r = ''inf'' \<or> lower r = ''infinity''
              then Inr (if neg then NegInf else PosInf)
              else if lower r = ''nan'' then Inr NaN
              else case parse_decimal r of
                None \<Rightarrow> Inl ValueError
              | Some q \<Rightarrow> Inr (double_of_rat (if neg then - q else q)))"

text \<open>\<open>str(i)\<close> on an int, and \<open>print(*xs)\<close> on a list of ints: one line, space separated.\<close>

fun str_nat :: "nat \<Rightarrow> string" where
  "str_nat n =
     (if n < 10 then [char_of (48 + n)]
      else str_nat (n div 10) @ [char_of (48 + n mod 10)])"

definition str_int :: "int \<Rightarrow> string" where
  "str_int i = (if i < 0 then CHR ''-'' # str_nat (nat (- i)) else str_nat (nat i))"

fun join_space :: "string list \<Rightarrow> string" where
  "join_space [] = []"
| "join_space [x] = x"
| "join_space (x # y # ys) = x @ CHR '' '' # join_space (y # ys)"

definition print_ints :: "int list \<Rightarrow> string" where
  "print_ints xs = join_space (map str_int xs)"

section \<open>The command parser\<close>

text \<open>
  A Python dictionary that is iterated is an association list in insertion order;
  \<open>dict(pairs)\<close> inserts the pairs from left to right, a repeated key keeping its first
  place and taking the last value.
\<close>

definition dict_of :: "('k \<times> 'v) list \<Rightarrow> ('k \<times> 'v) list" where
  "dict_of pairs = foldl (\<lambda>d (k, v). AList.update k v d) [] pairs"

text \<open>
  \<open>calendar.month_name\<close> in the default (English) locale: an empty string at index 0,
  then the twelve names. \<open>MONTH_NUMBER\<close> (in the source with a trailing underscore) maps
  each lower-cased name to its index.
\<close>

definition month_name :: "string list" where
  "month_name =
     ['''', ''January'', ''February'', ''March'', ''April'', ''May'', ''June'', ''July'',
      ''August'', ''September'', ''October'', ''November'', ''December'']"

definition MONTH_NUMBER :: "(string \<times> int) list" where
  "MONTH_NUMBER =
     dict_of (map (\<lambda>(index, month). (lower month, int index))
                (filter (\<lambda>(index, month). month \<noteq> [])
                   (zip [0 ..< length month_name] month_name)))"

definition month_number_from_name :: "string \<Rightarrow> error + int" where
  "month_number_from_name name_of_the_month =
     (case map_of MONTH_NUMBER (lower name_of_the_month) of
        None \<Rightarrow> Inl KeyError
      | Some i \<Rightarrow> Inr i)"

definition float_truediv_int :: "pyfloat \<Rightarrow> int \<Rightarrow> error + pyfloat" where
  "float_truediv_int x i =
     (case float_of_int i of Inl e \<Rightarrow> Inl e | Inr y \<Rightarrow> float_truediv x y)"

definition parse_nums :: "string \<Rightarrow> error + pyfloat" where
  "parse_nums v =
     (if CHR ''%'' \<in> set v then
        (case py_float (filter (\<lambda>c. c \<noteq> CHR ''%'') v) of
           Inl e \<Rightarrow> Inl e
         | Inr x \<Rightarrow> float_truediv_int x 100)
      else py_float v)"

fun list_of_strings_2_floats :: "string list \<Rightarrow> error + pyfloat list" where
  "list_of_strings_2_floats [] = Inr []"
| "list_of_strings_2_floats (s # ss) =
     (case parse_nums s of
        Inl e \<Rightarrow> Inl e
      | Inr x \<Rightarrow>
          (case list_of_strings_2_floats ss of
             Inl e \<Rightarrow> Inl e
           | Inr xs \<Rightarrow> Inr (x # xs)))"

record Command =
  cmd_name :: string
  cmd_values :: "(string \<times> pyfloat) list"
  cmd_month :: int

text \<open>
  One round of the generator's loop: what a line yields (nothing for a line without
  tokens), or the exception it raises.
\<close>

definition parse_line :: "string list \<Rightarrow> string list \<Rightarrow> error + Command option" where
  "parse_line commands asset_order =
     (if length commands < 2 then
        (case commands of
           [] \<Rightarrow> Inr None
         | command # _ \<Rightarrow>
             Inr (Some \<lparr>cmd_name = lower command, cmd_values = [], cmd_month = 0\<rparr>))
      else
        (case commands of
           [] \<Rightarrow> Inr None
         | command # remaining \<Rightarrow>
             if lower (last remaining) \<in> set (map fst MONTH_NUMBER) then
               (case month_number_from_name (last remaining) of
                  Inl e \<Rightarrow> Inl e
                | Inr month \<Rightarrow>
                    (case list_of_strings_2_floats (butlast remaining) of
                       Inl e \<Rightarrow> Inl e
                     | Inr vs \<Rightarrow>
                         Inr (Some \<lparr>cmd_name = lower command,
                                    cmd_values = dict_of (zip asset_order vs),
                                    cmd_month = month\<rparr>)))
             else
               (case list_of_strings_2_floats remaining of
                  Inl e \<Rightarrow> Inl e
                | Inr vs \<Rightarrow>
                    Inr (Some \<lparr>cmd_name = lower command,
                               cmd_values = dict_of (zip asset_order vs),
                               cmd_month = 0\<rparr>))))"

text \<open>
  The generator: the commands it yields, in order, and the exception that ends it
  (\<open>None\<close> when the input is exhausted).
\<close>

fun parse_list_2_commands ::
  "string list list \<Rightarrow> string list \<Rightarrow> Command list \<times> error option" where
  "parse_list_2_commands [] asset_order = ([], None)"
| "parse_list_2_commands (commands # rest) asset_order =
     (case parse_line commands asset_order of
        Inl e \<Rightarrow> ([], Some e)
      | Inr None \<Rightarrow> parse_list_2_commands rest asset_order
      | Inr (Some c) \<Rightarrow>
          (let (cs, r) = parse_list_2_commands rest asset_order in (c # cs, r)))"

section \<open>Assets\<close>

text \<open>
  \<open>bank_rounding_system\<close> is \<open>int(allocation)\<close>. The allocation of an asset is written
  by the property setter only, which stores what \<open>bank_rounding_system\<close> returns.
\<close>

definition bank_rounding_system :: "pynum \<Rightarrow> error + int" where
  "bank_rounding_system allocation = py_int allocation"

record Asset =
  asset_name :: string
  allocation :: int
  weight :: int

definition set_weight :: "Asset \<Rightarrow> int \<Rightarrow> error + Asset" where
  "set_weight a w =
     (if w < 0 \<or> w > 100 then Inl ValueError else Inr (a\<lparr>weight := w\<rparr>))"

definition set_allocation :: "Asset \<Rightarrow> pynum \<Rightarrow> error + Asset" where
  "set_allocation a x =
     (case bank_rounding_system x of
        Inl e \<Rightarrow> Inl e
      | Inr i \<Rightarrow> Inr (a\<lparr>allocation := i\<rparr>))"

text \<open>\<open>Asset(name, allocations, weight)\<close>; both defaults of the source are \<open>0\<close>.\<close>

definition Asset_init :: "string \<Rightarrow> pynum \<Rightarrow> int \<Rightarrow> error + Asset" where
  "Asset_init n allocations w =
     (case set_allocation \<lparr>asset_name = n, allocation = 0, weight = 0\<rparr> allocations of
        Inl e \<Rightarrow> Inl e
      | Inr a \<Rightarrow> set_weight a w)"

text \<open>\<open>self.allocation += value\<close> with a float \<open>value\<close>, as \<open>allocate\<close> does.\<close>

definition add_allocation :: "Asset \<Rightarrow> pyfloat \<Rightarrow> error + Asset" where
  "add_allocation a v =
     (case int_add_float (allocation a) v of
        Inl e \<Rightarrow> Inl e
      | Inr x \<Rightarrow> set_allocation a (PFloat x))"

text \<open>\<open>self.allocation *= 1 + rate\<close>.\<close>

definition monthly_rate_of_change :: "Asset \<Rightarrow> pyfloat \<Rightarrow> error + Asset" where
  "monthly_rate_of_change a rate =
     (case int_add_float 1 rate of
        Inl e \<Rightarrow> Inl e
      | Inr f \<Rightarrow>
          (case int_mul_float (allocation a) f of
             Inl e \<Rightarrow> Inl e
           | Inr x \<Rightarrow> set_allocation a (PFloat x)))"

section \<open>Portfolios\<close>

text \<open>
  A method that mutates returns the object as the call leaves it together with the
  exception it raised, if any: an exception in the middle of a loop leaves the earlier
  rounds done.
\<close>

record InvestorPortfolio =
  investor_name :: string
  assets :: "(string \<times> Asset) list"
  sip :: "(string \<times> pyfloat) list"

definition InvestorPortfolio_init ::
  "string \<Rightarrow> (string \<times> Asset) list \<Rightarrow> error + InvestorPortfolio" where
  "InvestorPortfolio_init n as =
     (let total_weights = sum_list (map (\<lambda>(k, a). weight a) as)
      in if total_weights \<noteq> 100 then Inl ValueError
         else Inr \<lparr>investor_name = n, assets = as,
                   sip = dict_of (zip (map fst as) (replicate (length as) (Finite 0)))\<rparr>)"

fun allocate_loop ::
  "(string \<times> Asset) list \<Rightarrow> (string \<times> pyfloat) list
     \<Rightarrow> (string \<times> Asset) list \<times> error option" where
  "allocate_loop as [] = (as, None)"
| "allocate_loop as ((n, v) # vs) =
     (case map_of as n of
        None \<Rightarrow> (as, Some KeyError)
      | Some a \<Rightarrow>
          (case add_allocation a v of
             Inl e \<Rightarrow> (as, Some e)
           | Inr a' \<Rightarrow> allocate_loop (AList.update n a' as) vs))"

definition allocate ::
  "InvestorPortfolio \<Rightarrow> (string \<times> pyfloat) list \<Rightarrow> InvestorPortfolio \<times> error option" where
  "allocate p vs = (let (as, r) = allocate_loop (assets p) vs in (p\<lparr>assets := as\<rparr>, r))"

definition add_sip :: "InvestorPortfolio \<Rightarrow> InvestorPortfolio \<times> error option" where
  "add_sip p = allocate p (sip p)"

fun change_loop ::
  "(string \<times> Asset) list \<Rightarrow> (string \<times> pyfloat) list
     \<Rightarrow> (string \<times> Asset) list \<times> error option" where
  "change_loop as [] = (as, None)"
| "change_loop as ((n, rate) # rs) =
     (case map_of as n of
        None \<Rightarrow> (as, Some KeyError)
      | Some a \<Rightarrow>
          (case monthly_rate_of_change a rate of
             Inl e \<Rightarrow> (as, Some e)
           | Inr a' \<Rightarrow> change_loop (AList.update n a' as) rs))"

definition change ::
  "InvestorPortfolio \<Rightarrow> (string \<times> pyfloat) list \<Rightarrow> InvestorPortfolio \<times> error option" where
  "change p rates = (let (as, r) = change_loop (assets p) rates in (p\<lparr>assets := as\<rparr>, r))"

definition balance :: "InvestorPortfolio \<Rightarrow> int list" where
  "balance p = map (\<lambda>(k, a). allocation a) (assets p)"

text \<open>
  \<open>rebalance\<close>: the total is summed first; then each asset, in dictionary order, is set
  to \<open>total_allocation * asset.weight / 100\<close>, an int product divided by an int.
\<close>

fun rebalance_loop ::
  "int \<Rightarrow> (string \<times> Asset) list \<Rightarrow> (string \<times> Asset) list \<times> error option" where
  "rebalance_loop total_allocation [] = ([], None)"
| "rebalance_loop total_allocation ((k, a) # as) =
     (case int_truediv (total_allocation * weight a) 100 of
        Inl e \<Rightarrow> ((k, a) # as, Some e)
      | Inr x \<Rightarrow>
          (case set_allocation a (PFloat x) of
             Inl e \<Rightarrow> ((k, a) # as, Some e)
           | Inr a' \<Rightarrow>
               (let (as', r) = rebalance_loop total_allocation as in ((k, a') # as', r))))"

definition rebalance :: "InvestorPortfolio \<Rightarrow> InvestorPortfolio \<times> error option" where
  "rebalance p =
     (let total_allocation = sum_list (balance p);
          (as, r) = rebalance_loop total_allocation (assets p)
      in (p\<lparr>assets := as\<rparr>, r))"

section \<open>The bank\<close>

text \<open>
  \<open>current_month\<close> is an attribute that \<open>__init__\<close> does not create: \<open>None\<close> stands for
  the missing attribute. The log (\<open>self.log\<close> in the source) has one dictionary per key
  \<open>0 .. len(MONTH_NUMBER) - 1\<close>.
\<close>

record MoneyBank =
  investors :: "string \<rightharpoonup> InvestorPortfolio"
  bank_log :: "int \<rightharpoonup> (string \<rightharpoonup> int list)"
  current_month :: "int option"

definition SIP_MONTH :: int where
  "SIP_MONTH = 2"

definition REBALANCE_MONTHS :: "int list" where
  "REBALANCE_MONTHS = [6, 12]"

definition REBALANCE_ERROR_MSG :: string where
  "REBALANCE_ERROR_MSG = ''CANNOT_REBALANCE''"

definition MoneyBank_init :: "InvestorPortfolio list \<Rightarrow> MoneyBank" where
  "MoneyBank_init ps =
     \<lparr>investors = foldl (\<lambda>m p. m(investor_name p \<mapsto> p)) Map.empty ps,
      bank_log = map_of (map (\<lambda>i. (int i, Map.empty)) [0 ..< length MONTH_NUMBER]),
      current_month = None\<rparr>"

definition bank_allocate ::
  "MoneyBank \<Rightarrow> string \<Rightarrow> (string \<times> pyfloat) list \<Rightarrow> MoneyBank \<times> error option" where
  "bank_allocate b n vs =
     (case investors b n of
        None \<Rightarrow> (b, Some KeyError)
      | Some p \<Rightarrow>
          (let (p', r) = allocate p vs in (b\<lparr>investors := (investors b)(n \<mapsto> p')\<rparr>, r)))"

definition bank_sip ::
  "MoneyBank \<Rightarrow> string \<Rightarrow> (string \<times> pyfloat) list \<Rightarrow> MoneyBank \<times> error option" where
  "bank_sip b n sip_amounts =
     (case investors b n of
        None \<Rightarrow> (b, Some KeyError)
      | Some p \<Rightarrow> (b\<lparr>investors := (investors b)(n \<mapsto> p\<lparr>sip := sip_amounts\<rparr>)\<rparr>, None))"

text \<open>\<open>self.log[month][name] = [...]\<close>: the first subscript raises on a missing month.\<close>

definition record_log :: "MoneyBank \<Rightarrow> int \<Rightarrow> string \<Rightarrow> MoneyBank \<times> error option" where
  "record_log b m n =
     (case investors b n of
        None \<Rightarrow> (b, Some KeyError)
      | Some p \<Rightarrow>
          (case bank_log b m of
             None \<Rightarrow> (b, Some KeyError)
           | Some entry \<Rightarrow>
               (b\<lparr>bank_log := (bank_log b)(m \<mapsto> entry(n \<mapsto> balance p))\<rparr>, None)))"

definition bank_add_sip :: "MoneyBank \<Rightarrow> string \<Rightarrow> MoneyBank \<times> error option" where
  "bank_add_sip b n =
     (case investors b n of
        None \<Rightarrow> (b, Some KeyError)
      | Some p \<Rightarrow>
          (let (p', r) = add_sip p in (b\<lparr>investors := (investors b)(n \<mapsto> p')\<rparr>, r)))"

definition bank_apply_change ::
  "MoneyBank \<Rightarrow> string \<Rightarrow> (string \<times> pyfloat) list \<Rightarrow> MoneyBank \<times> error option" where
  "bank_apply_change b n rates =
     (case investors b n of
        None \<Rightarrow> (b, Some KeyError)
      | Some p \<Rightarrow>
          (let (p', r) = change p rates in (b\<lparr>investors := (investors b)(n \<mapsto> p')\<rparr>, r)))"

definition bank_change ::
  "MoneyBank \<Rightarrow> string \<Rightarrow> (string \<times> pyfloat) list \<Rightarrow> int \<Rightarrow> MoneyBank \<times> error option" where
  "bank_change b n rates month =
     (let b0 = b\<lparr>current_month := Some month\<rparr>;
          (b1, r1) = (if month \<ge> SIP_MONTH then bank_add_sip b0 n else (b0, None))
      in case r1 of
           Some e \<Rightarrow> (b1, Some e)
         | None \<Rightarrow>
             (let (b2, r2) = bank_apply_change b1 n rates
              in case r2 of
                   Some e \<Rightarrow> (b2, Some e)
                 | None \<Rightarrow> record_log b2 month n))"

definition bank_balance :: "MoneyBank \<Rightarrow> string \<Rightarrow> int \<Rightarrow> error + int list" where
  "bank_balance b n month =
     (case bank_log b month of
        None \<Rightarrow> Inl KeyError
      | Some entry \<Rightarrow>
          (case entry n of None \<Rightarrow> Inl KeyError | Some vals \<Rightarrow> Inr vals))"

text \<open>
  \<open>rebalance\<close> prints and returns a flag: the result is the bank, the lines printed, and
  the flag or the exception.
\<close>

definition bank_rebalance ::
  "MoneyBank \<Rightarrow> string \<Rightarrow> MoneyBank \<times> string list \<times> (error + bool)" where
  "bank_rebalance b n =
     (case current_month b of
        None \<Rightarrow> (b, [], Inl AttributeError)
      | Some m \<Rightarrow>
          if m \<notin> set REBALANCE_MONTHS then (b, [REBALANCE_ERROR_MSG], Inr False)
          else
            (case investors b n of
               None \<Rightarrow> (b, [], Inl KeyError)
             | Some p \<Rightarrow>
                 (let (p', r) = rebalance p;
                      b1 = b\<lparr>investors := (investors b)(n \<mapsto> p')\<rparr>
                  in case r of
                       Some e \<Rightarrow> (b1, [], Inl e)
                     | None \<Rightarrow>
                         (case record_log b1 m n of
                            (b2, Some e) \<Rightarrow> (b2, [], Inl e)
                          | (b2, None) \<Rightarrow> (b2, [], Inr True)))))"

text \<open>One round of the loop of \<open>execute_investor_commands\<close>.\<close>

definition dispatch ::
  "MoneyBank \<Rightarrow> string \<Rightarrow> Command \<Rightarrow> MoneyBank \<times> string list \<times> error option" where
  "dispatch b investor c =
     (if cmd_name c = ''allocate'' then
        (let (b', r) = bank_allocate b investor (cmd_values c) in (b', [], r))
      else if cmd_name c = ''sip'' then
        (let (b', r) = bank_sip b investor (cmd_values c) in (b', [], r))
      else if cmd_name c = ''change'' then
        (let (b', r) = bank_change b investor (cmd_values c) (cmd_month c) in (b', [], r))
      else if cmd_name c = ''balance'' then
        (case bank_balance b investor (cmd_month c) of
           Inl e \<Rightarrow> (b, [], Some e)
         | Inr vals \<Rightarrow> (b, [print_ints vals], None))
      else if cmd_name c = ''rebalance'' then
        (case bank_rebalance b investor of
           (b', out, Inl e) \<Rightarrow> (b', out, Some e)
         | (b', out, Inr False) \<Rightarrow> (b', out, None)
         | (b', out, Inr True) \<Rightarrow>
             (case current_month b' of
                None \<Rightarrow> (b', out, Some AttributeError)
              | Some m \<Rightarrow>
                  (case bank_balance b' investor m of
                     Inl e \<Rightarrow> (b', out, Some e)
                   | Inr vals \<Rightarrow> (b', out @ [print_ints vals], None))))
      else (b, [], None))"

fun run_commands ::
  "MoneyBank \<Rightarrow> string \<Rightarrow> Command list \<Rightarrow> MoneyBank \<times> string list \<times> error option" where
  "run_commands b investor [] = (b, [], None)"
| "run_commands b investor (c # cs) =
     (case dispatch b investor c of
        (b', out, Some e) \<Rightarrow> (b', out, Some e)
      | (b', out, None) \<Rightarrow>
          (let (b'', out', r) = run_commands b' investor cs in (b'', out @ out', r)))"

text \<open>
  The loop consumes the generator: the commands yielded before the generator raises are
  executed, then its exception surfaces.
\<close>

definition execute_investor_commands ::
  "MoneyBank \<Rightarrow> string \<Rightarrow> string list list \<Rightarrow> string list
     \<Rightarrow> MoneyBank \<times> string list \<times> error option" where
  "execute_investor_commands b investor list_of_commands assets_order =
     (let (cs, parse_error) = parse_list_2_commands list_of_commands assets_order;
          (b', out, r) = run_commands b investor cs
      in case r of
           Some e \<Rightarrow> (b', out, Some e)
         | None \<Rightarrow> (b', out, parse_error))"

section \<open>The program\<close>

text \<open>
  \<open>main\<close> builds one asset per name and weight, the portfolio, then the bank, and runs
  the commands of the input file; an exception ends it at once. \<open>main_with\<close> is \<open>main\<close>
  with its three literals (investor name, asset order, weights) as parameters, and takes
  the lines that \<open>read_file_2_list\<close> returns. The result is what was printed and the
  exception that ended the run, if any.
\<close>

fun make_assets :: "(string \<times> int) list \<Rightarrow> error + Asset list" where
  "make_assets [] = Inr []"
| "make_assets ((n, w) # rest) =
     (case Asset_init n (PInt 0) w of
        Inl e \<Rightarrow> Inl e
      | Inr a \<Rightarrow>
          (case make_assets rest of
             Inl e \<Rightarrow> Inl e
           | Inr as \<Rightarrow> Inr (a # as)))"

definition build_investor ::
  "string \<Rightarrow> string list \<Rightarrow> int list \<Rightarrow> error + InvestorPortfolio" where
  "build_investor n asset_order weights =
     (case make_assets (zip asset_order weights) of
        Inl e \<Rightarrow> Inl e
      | Inr as \<Rightarrow> InvestorPortfolio_init n (dict_of (zip asset_order as)))"

definition main_with ::
  "string \<Rightarrow> string list \<Rightarrow> int list \<Rightarrow> string list list \<Rightarrow> string list \<times> error option" where
  "main_with n asset_order weights list_of_commands =
     (case build_investor n asset_order weights of
        Inl e \<Rightarrow> ([], Some e)
      | Inr investor \<Rightarrow>
          snd (execute_investor_commands (MoneyBank_init [investor]) (investor_name investor)
                 list_of_commands asset_order))"

definition main :: "string list list \<Rightarrow> string list \<times> error option" where
  "main list_of_commands =
     main_with ''John Doe'' [''Equity'', ''Debt'', ''Gold''] [60, 30, 10] list_of_commands"

section \<open>Notions of the specification\<close>

text \<open>
  Truncation toward zero in the specification's words: the sign of the amount times the
  floor of its magnitude.
\<close>

definition truncate_toward_zero :: "rat \<Rightarrow> int" where
  "truncate_toward_zero x = (if x < 0 then - \<lfloor>- x\<rfloor> else \<lfloor>x\<rfloor>)"

text \<open>
  The portfolio of the specification's end-to-end scenario: two assets, in the order
  Equity, Debt, weighted 60 and 40.
\<close>

definition scenario_investor :: InvestorPortfolio where
  "scenario_investor =
     \<lparr>investor_name = ''John Doe'',
      assets = [(''Equity'', \<lparr>asset_name = ''Equity'', allocation = 0, weight = 60\<rparr>),
                (''Debt'', \<lparr>asset_name = ''Debt'', allocation = 0, weight = 40\<rparr>)],
      sip = [(''Equity'', Finite 0), (''Debt'', Finite 0)]\<rparr>"

definition balance_of :: "MoneyBank \<Rightarrow> string \<Rightarrow> int list option" where
  "balance_of b n = map_option balance (investors b n)"

definition scenario_lines :: "string list list" where
  "scenario_lines =
     [[''ALLOCATE'', ''6000'', ''3000''], [''CHANGE'', ''10%'', ''MARCH''],
      [''BALANCE'', ''MARCH'']]"

text \<open>
  Banks for that portfolio: after the first two lines of the scenario (the current month is
  3), and after a change command for December on the fresh bank.
\<close>

definition scenario_bank :: MoneyBank where
  "scenario_bank =
     fst (execute_investor_commands (MoneyBank_init [scenario_investor]) ''John Doe''
            (take 2 scenario_lines) [''Equity'', ''Debt''])"

definition december_bank :: MoneyBank where
  "december_bank =
     fst (run_commands (MoneyBank_init [scenario_investor]) ''John Doe''
            [\<lparr>cmd_name = ''change'', cmd_values = [], cmd_month = 12\<rparr>])"

text \<open>The same portfolio with contributions of 100 and 200 stored by a sip command.\<close>

definition sip_investor :: InvestorPortfolio where
  "sip_investor = scenario_investor\<lparr>sip := [(''Equity'', Finite 100), (''Debt'', Finite 200)]\<rparr>"

text \<open>
  Two more portfolios with the weights 60 and 40: one holding 6601 and 3000, one holding
  \<open>10 ^ 20\<close> and 1000 (as the line \<open>ALLOCATE 1e20 1000\<close> leaves it).
\<close>

definition small_investor :: InvestorPortfolio where
  "small_investor =
     \<lparr>investor_name = ''John Doe'',
      assets = [(''Equity'', \<lparr>asset_name = ''Equity'', allocation = 6601, weight = 60\<rparr>),
                (''Debt'', \<lparr>asset_name = ''Debt'', allocation = 3000, weight = 40\<rparr>)],
      sip = [(''Equity'', Finite 0), (''Debt'', Finite 0)]\<rparr>"

definition large_investor :: InvestorPortfolio where
  "large_investor =
     \<lparr>investor_name = ''John Doe'',
      assets = [(''Equity'', \<lparr>asset_name = ''Equity'', allocation = 100000000000000000000,
                              weight = 60\<rparr>),
                (''Debt'', \<lparr>asset_name = ''Debt'', allocation = 1000, weight = 40\<rparr>)],
      sip = [(''Equity'', Finite 0), (''Debt'', Finite 0)]\<rparr>"

section \<open>Powers of two and the binary exponent\<close>

lemma pow2_powi: "pow2 e = 2 powi e"
  by (simp add: pow2_def power_int_def power_one_over inverse_eq_divide)

lemma pow2_pos [simp]: "0 < pow2 e"
  by (simp add: pow2_def)

lemma pow2_add: "pow2 (a + b) = pow2 a * pow2 b"
  by (simp add: pow2_powi power_int_add)

lemma pow2_strict_mono: "a < b \<Longrightarrow> pow2 a < pow2 b"
  by (simp add: pow2_powi power_int_strict_increasing)

lemma pow2_less_iff [simp]: "pow2 a < pow2 b \<longleftrightarrow> a < b"
proof
  assume "pow2 a < pow2 b"
  show "a < b"
  proof (rule ccontr)
    assume "\<not> a < b"
    then have "b = a \<or> b < a" by linarith
    then have "pow2 b \<le> pow2 a" using pow2_strict_mono [of b a] by auto
    with \<open>pow2 a < pow2 b\<close> show False by simp
  qed
qed (rule pow2_strict_mono)

lemma pow2_le_iff [simp]: "pow2 a \<le> pow2 b \<longleftrightarrow> a \<le> b"
  using pow2_less_iff [of b a] by (simp only: linorder_not_less [symmetric])

lemma bitlen_bounds_rat:
  assumes "0 < a"
  shows "pow2 (bitlen a - 1) \<le> of_int a" and "of_int a < pow2 (bitlen a)"
proof -
  from assms have b1: "1 \<le> bitlen a"
    using bitlen_eq_zero_iff [of a] bitlen_nonneg [of a] by linarith
  have lo: "(2::int) ^ nat (bitlen a - 1) \<le> a" and hi: "a < 2 ^ nat (bitlen a)"
    using bitlen_bounds [OF assms] by auto
  have "pow2 (bitlen a - 1) = of_int (2 ^ nat (bitlen a - 1))"
    using b1 by (simp add: pow2_def)
  also have "\<dots> \<le> of_int a"
    using lo by (simp only: of_int_le_iff)
  finally show "pow2 (bitlen a - 1) \<le> of_int a" .
  have "(of_int a :: rat) < of_int (2 ^ nat (bitlen a))"
    using hi by (simp only: of_int_less_iff)
  also have "\<dots> = pow2 (bitlen a)"
    using b1 by (simp add: pow2_def)
  finally show "of_int a < pow2 (bitlen a)" .
qed

lemma ilog2_bounds:
  assumes "0 < x"
  shows "pow2 (ilog2 x) \<le> x \<and> x < pow2 (ilog2 x + 1)"
proof -
  obtain a b where q: "quotient_of x = (a, b)" by (cases "quotient_of x")
  have bpos: "0 < b" using quotient_of_denom_pos [OF q] .
  have xeq: "x = of_int a / of_int b" using quotient_of_div [OF q] .
  have apos: "0 < a"
    using assms bpos xeq by (simp add: zero_less_divide_iff)
  define d where "d = bitlen a - bitlen b"
  have alo: "pow2 (bitlen a - 1) \<le> of_int a" and ahi: "of_int a < pow2 (bitlen a)"
    using bitlen_bounds_rat [OF apos] by auto
  have blo: "pow2 (bitlen b - 1) \<le> of_int b" and bhi: "of_int b < pow2 (bitlen b)"
    using bitlen_bounds_rat [OF bpos] by auto
  have bq: "(0::rat) < of_int b" using bpos by simp
  have lower: "pow2 (d - 1) \<le> x"
  proof -
    have "pow2 (d - 1) * of_int b \<le> pow2 (d - 1) * pow2 (bitlen b)"
      using bhi by (simp add: less_imp_le)
    also have "\<dots> = pow2 (bitlen a - 1)"
      by (simp add: d_def pow2_add [symmetric])
    also have "\<dots> \<le> of_int a" by (rule alo)
    finally show ?thesis using bq by (simp add: xeq pos_le_divide_eq)
  qed
  have upper: "x < pow2 (d + 1)"
  proof -
    have "of_int a < pow2 (bitlen a)" by (rule ahi)
    also have "\<dots> = pow2 (d + 1) * pow2 (bitlen b - 1)"
      by (simp add: d_def pow2_add [symmetric])
    also have "\<dots> \<le> pow2 (d + 1) * of_int b"
      using blo by simp
    finally show ?thesis using bq by (simp add: xeq pos_divide_less_eq)
  qed
  show ?thesis
  proof (cases "pow2 d \<le> x")
    case True
    then have "ilog2 x = d" by (simp add: ilog2_def q d_def)
    with True upper show ?thesis by simp
  next
    case False
    then have "ilog2 x = d - 1" by (simp add: ilog2_def q d_def)
    with False lower show ?thesis by simp
  qed
qed

lemma ilog2_unique:
  assumes "pow2 e \<le> x" and "x < pow2 (e + 1)"
  shows "ilog2 x = e"
proof -
  have xpos: "0 < x" using assms(1) pow2_pos [of e] by linarith
  have b: "pow2 (ilog2 x) \<le> x" "x < pow2 (ilog2 x + 1)"
    using ilog2_bounds [OF xpos] by auto
  have "pow2 e < pow2 (ilog2 x + 1)" using assms(1) b(2) by linarith
  moreover have "pow2 (ilog2 x) < pow2 (e + 1)" using assms(2) b(1) by linarith
  ultimately show ?thesis by simp
qed

section \<open>Rounding\<close>

lemma truncate_rat_eq: "truncate_rat x = truncate_toward_zero x"
  by (simp add: truncate_rat_def truncate_toward_zero_def ceiling_def)

lemma round_half_even_of_int [simp]: "round_half_even (of_int k) = k"
  by (simp add: round_half_even_def)

lemma round_half_even_error: "\<bar>of_int (round_half_even x) - x\<bar> \<le> 1 / 2"
  unfolding round_half_even_def Let_def
  by (auto simp: abs_if) linarith+

lemma round_half_even_nonneg: "0 \<le> x \<Longrightarrow> 0 \<le> round_half_even x"
  unfolding round_half_even_def Let_def by auto

lemma round_mag_eval:
  assumes "pow2 e \<le> x" and "x < pow2 (e + 1)"
  shows "round_mag x =
     of_int (round_half_even (x / pow2 (max (e - 52) (- 1074)))) * pow2 (max (e - 52) (- 1074))"
  by (simp add: round_mag_def Let_def ilog2_unique [OF assms])

lemma double_of_rat_pos_eval:
  assumes "pow2 e \<le> x" and "x < pow2 (e + 1)"
    and "r = of_int (round_half_even (x / pow2 (max (e - 52) (- 1074)))) * pow2 (max (e - 52) (- 1074))"
    and "r < pow2 1024"
  shows "double_of_rat x = Finite r"
proof -
  have xpos: "0 < x" using assms(1) pow2_pos [of e] by linarith
  have "round_mag \<bar>x\<bar> = r" using xpos assms(3) round_mag_eval [OF assms(1,2)] by simp
  then show ?thesis using xpos assms(4) by (simp add: double_of_rat_def)
qed

lemma double_of_rat_neg_eval:
  assumes "pow2 e \<le> x" and "x < pow2 (e + 1)"
    and "r = of_int (round_half_even (x / pow2 (max (e - 52) (- 1074)))) * pow2 (max (e - 52) (- 1074))"
    and "r < pow2 1024"
  shows "double_of_rat (- x) = Finite (- r)"
proof -
  have xpos: "0 < x" using assms(1) pow2_pos [of e] by linarith
  have "round_mag \<bar>- x\<bar> = r" using xpos assms(3) round_mag_eval [OF assms(1,2)] by simp
  then show ?thesis using xpos assms(4) by (simp add: double_of_rat_def)
qed

lemma pow2_neq0 [simp]: "pow2 e \<noteq> 0"
  using pow2_pos [of e] by linarith

lemma round_half_even_nearest:
  assumes "\<bar>x - of_int m\<bar> < 1 / 2"
  shows "round_half_even x = m"
proof -
  have "\<lfloor>x\<rfloor> = m \<or> \<lfloor>x\<rfloor> = m - 1"
    using assms by (auto simp: abs_if split: if_splits) linarith+
  then show ?thesis
    using assms unfolding round_half_even_def Let_def
    by (auto simp: abs_if split: if_splits)
qed

lemma double_of_rat_pos_near:
  assumes "pow2 e \<le> x" and "x < pow2 (e + 1)"
    and "\<bar>x / pow2 (max (e - 52) (- 1074)) - of_int m\<bar> < 1 / 2"
    and "r = of_int m * pow2 (max (e - 52) (- 1074))"
    and "r < pow2 1024"
  shows "double_of_rat x = Finite r"
proof (rule double_of_rat_pos_eval [OF assms(1,2)])
  show "r = of_int (round_half_even (x / pow2 (max (e - 52) (- 1074)))) * pow2 (max (e - 52) (- 1074))"
    by (simp only: round_half_even_nearest [OF assms(3)] assms(4))
  show "r < pow2 1024" by (rule assms(5))
qed

lemma double_one_tenth: "double_of_rat (1 / 10) = Finite (3602879701896397 / 36028797018963968)"
  by (rule double_of_rat_pos_near [where e = "- 4" and m = 7205759403792794])
    (simp_all add: pow2_def)

lemma double_eleven_tenths: "double_of_rat (11 / 10) = Finite (2476979795053773 / 2251799813685248)"
  by (rule double_of_rat_pos_near [where e = 0 and m = 4953959590107546])
    (simp_all add: pow2_def)

lemma double_of_rat_exact:
  assumes "\<bar>i\<bar> < 2 ^ 53"
  shows "double_of_rat (of_int i) = Finite (of_int i)"
proof -
  have pos: "double_of_rat (of_int k) = Finite (of_int k) \<and> double_of_rat (- of_int k) = Finite (- of_int k)"
    if k: "0 < k" "k < 2 ^ 53" for k :: int
  proof -
    define x :: rat where "x = of_int k"
    have xpos: "0 < x" using k by (simp add: x_def)
    define e where "e = ilog2 x"
    have b: "pow2 e \<le> x" "x < pow2 (e + 1)"
      using ilog2_bounds [OF xpos] by (auto simp: e_def)
    have "x < pow2 53"
      using k(2) by (simp add: x_def pow2_def)
    with b(1) have "pow2 e < pow2 53" by linarith
    then have e52: "e \<le> 52" by simp
    have "pow2 0 \<le> x" using k(1) by (simp add: x_def pow2_def)
    with b(2) have "pow2 0 < pow2 (e + 1)" by linarith
    then have e0: "0 \<le> e" by simp
    have s: "max (e - 52) (- 1074) = e - 52" using e0 by simp
    have "x / pow2 (e - 52) = x * pow2 (52 - e)"
      using pow2_add [of "e - 52" "52 - e"] by (simp add: pow2_def field_simps)
    also have "\<dots> = of_int (k * 2 ^ nat (52 - e))"
      using e52 by (simp add: x_def pow2_def)
    finally have q: "x / pow2 (e - 52) = of_int (k * 2 ^ nat (52 - e))" .
    have r: "of_int (round_half_even (x / pow2 (e - 52))) * pow2 (e - 52) = x"
    proof -
      have "of_int (round_half_even (x / pow2 (e - 52))) * pow2 (e - 52)
            = (x / pow2 (e - 52)) * pow2 (e - 52)"
        by (simp only: q round_half_even_of_int)
      then show ?thesis by simp
    qed
    have lt: "x < pow2 1024" using \<open>x < pow2 53\<close> pow2_strict_mono [of 53 1024] by linarith
    have "double_of_rat x = Finite x"
      by (rule double_of_rat_pos_eval [OF b]) (simp_all add: s r lt)
    moreover have "double_of_rat (- x) = Finite (- x)"
      by (rule double_of_rat_neg_eval [OF b]) (simp_all add: s r lt)
    ultimately show ?thesis by (simp add: x_def)
  qed
  consider "i = 0" | "0 < i" | "i < 0" by linarith
  then show ?thesis
  proof cases
    case 1
    then show ?thesis by (simp add: double_of_rat_def)
  next
    case 2
    with assms pos [of i] show ?thesis by simp
  next
    case 3
    with assms pos [of "- i"] show ?thesis by simp
  qed
qed

lemma float_of_int_exact: "\<bar>i\<bar> < 2 ^ 53 \<Longrightarrow> float_of_int i = Inr (Finite (of_int i))"
  by (simp add: float_of_int_def double_of_rat_exact)

lemma double_of_rat_numeral [simp]:
  "(numeral n :: int) < 9007199254740992 \<Longrightarrow> double_of_rat (numeral n) = Finite (numeral n)"
  using double_of_rat_exact [of "numeral n"] by simp


lemma double_one_plus_tenth:
  "double_of_rat (39631676720860365 / 36028797018963968) = Finite (2476979795053773 / 2251799813685248)"
  by (rule double_of_rat_pos_near [where e = 0 and m = 4953959590107546])
    (simp_all add: pow2_def)

lemma double_6000_times:
  "double_of_rat (928867423145164875 / 140737488355328) = Finite (7256776743321601 / 1099511627776)"
  by (rule double_of_rat_pos_near [where e = 12 and m = 7256776743321601])
    (simp_all add: pow2_def)

lemma floor_numeral_div [simp]: "\<lfloor>numeral a / numeral b :: rat\<rfloor> = numeral a div numeral b"
  by (metis floor_divide_of_int_eq of_int_numeral)

lemma truncate_rat_numeral_div [simp]:
  "truncate_rat (numeral a / numeral b) = numeral a div numeral b"
  by (simp add: truncate_rat_def)

lemma truncate_rat_numeral [simp]: "truncate_rat (numeral a) = numeral a"
  by (simp add: truncate_rat_def)

lemma truncate_rat_0 [simp]: "truncate_rat 0 = 0"
  by (simp add: truncate_rat_def)

section \<open>Evaluation of the string functions\<close>


lemma MONTH_NUMBER_eq:
  "MONTH_NUMBER =
     [(''january'', 1), (''february'', 2), (''march'', 3), (''april'', 4),
      (''may'', 5), (''june'', 6), (''july'', 7), (''august'', 8),
      (''september'', 9), (''october'', 10), (''november'', 11), (''december'', 12)]"
  by (simp add: MONTH_NUMBER_def month_name_def dict_of_def upt_rec lower_def lower_char_def char_of_eq_iff)


lemmas str_eval =
  lower_def lower_char_def char_of_eq_iff is_digit_def is_space_def strip_def
  parse_sign_def parse_exponent_def parse_decimal_def nat_of_digits_def digit_val_def
  pow10_def py_float_def


section \<open>The end-to-end scenario\<close>


lemma map_of_upt:
  "map_of (map (\<lambda>i. (int i, e)) [0 ..< n]) m = (if 0 \<le> m \<and> m < int n then Some e else None)"
proof (induction n)
  case 0
  then show ?case by simp
next
  case (Suc n)
  have "map_of (map (\<lambda>i. (int i, e)) [0 ..< Suc n]) m =
        (map_of [(int n, e)] ++ map_of (map (\<lambda>i. (int i, e)) [0 ..< n])) m"
    by (simp add: map_add_def split: option.splits) 
  then show ?case using Suc by (auto simp: map_add_def split: option.splits)
qed

lemma bank_log_init:
  "bank_log (MoneyBank_init ps) m = (if 0 \<le> m \<and> m < 12 then Some Map.empty else None)"
proof -
  have "length MONTH_NUMBER = 12" by (simp add: MONTH_NUMBER_eq)
  then show ?thesis by (simp add: MoneyBank_init_def map_of_upt)
qed

lemma investors_init_single [simp]: "investors (MoneyBank_init [p]) = [investor_name p \<mapsto> p]"
  by (simp add: MoneyBank_init_def)

lemma current_month_init [simp]: "current_month (MoneyBank_init ps) = None"
  by (simp add: MoneyBank_init_def)

lemmas parse_eval =
  parse_line_def MONTH_NUMBER_eq str_eval parse_nums_def dict_of_def
  month_number_from_name_def float_truediv_int_def float_of_int_exact double_one_tenth

lemmas engine_eval =
  execute_investor_commands_def dispatch_def bank_allocate_def bank_sip_def bank_change_def
  bank_add_sip_def bank_apply_change_def record_log_def bank_balance_def bank_rebalance_def
  allocate_def add_sip_def change_def balance_def add_allocation_def monthly_rate_of_change_def
  set_allocation_def bank_rounding_system_def int_add_float_def int_mul_float_def
  float_of_int_exact double_one_plus_tenth double_6000_times SIP_MONTH_def
  print_ints_def str_int_def char_of_eq_iff balance_of_def bank_log_init

lemma scenario_build:
  "build_investor ''John Doe'' [''Equity'', ''Debt''] [60, 40] = Inr scenario_investor"
  by (simp add: build_investor_def Asset_init_def set_allocation_def set_weight_def
      bank_rounding_system_def dict_of_def InvestorPortfolio_init_def scenario_investor_def)

lemma scenario_parse1:
  "parse_list_2_commands (take 1 scenario_lines) [''Equity'', ''Debt''] =
   ([\<lparr>cmd_name = ''allocate'',
      cmd_values = [(''Equity'', Finite 6000), (''Debt'', Finite 3000)], cmd_month = 0\<rparr>], None)"
  by (simp add: scenario_lines_def parse_eval)

lemma scenario_parse2:
  "parse_list_2_commands (take 2 scenario_lines) [''Equity'', ''Debt''] =
   ([\<lparr>cmd_name = ''allocate'',
      cmd_values = [(''Equity'', Finite 6000), (''Debt'', Finite 3000)], cmd_month = 0\<rparr>,
     \<lparr>cmd_name = ''change'',
      cmd_values = [(''Equity'', Finite (3602879701896397 / 36028797018963968))],
      cmd_month = 3\<rparr>], None)"
  by (simp add: scenario_lines_def parse_eval)

lemma scenario_parse3:
  "parse_list_2_commands scenario_lines [''Equity'', ''Debt''] =
   ([\<lparr>cmd_name = ''allocate'',
      cmd_values = [(''Equity'', Finite 6000), (''Debt'', Finite 3000)], cmd_month = 0\<rparr>,
     \<lparr>cmd_name = ''change'',
      cmd_values = [(''Equity'', Finite (3602879701896397 / 36028797018963968))],
      cmd_month = 3\<rparr>,
     \<lparr>cmd_name = ''balance'', cmd_values = [], cmd_month = 3\<rparr>], None)"
  by (simp add: scenario_lines_def parse_eval)

lemma scenario_after_allocate:
  "balance_of (fst (execute_investor_commands (MoneyBank_init [scenario_investor])
        ''John Doe'' (take 1 scenario_lines) [''Equity'', ''Debt''])) ''John Doe''
       = Some [6000, 3000]"
  unfolding execute_investor_commands_def scenario_parse1
  by (simp add: engine_eval scenario_investor_def)

lemma scenario_after_change:
  "balance_of (fst (execute_investor_commands (MoneyBank_init [scenario_investor])
        ''John Doe'' (take 2 scenario_lines) [''Equity'', ''Debt''])) ''John Doe''
       = Some [6600, 3000]"
  unfolding execute_investor_commands_def scenario_parse2
  by (simp add: engine_eval scenario_investor_def)

lemma scenario_month_after_change:
  "current_month (fst (execute_investor_commands (MoneyBank_init [scenario_investor])
        ''John Doe'' (take 2 scenario_lines) [''Equity'', ''Debt''])) = Some 3"
  unfolding execute_investor_commands_def scenario_parse2
  by (simp add: engine_eval scenario_investor_def)

lemma scenario_after_balance:
  "snd (execute_investor_commands (MoneyBank_init [scenario_investor])
        ''John Doe'' scenario_lines [''Equity'', ''Debt'']) = ([''6600 3000''], None)"
  unfolding execute_investor_commands_def scenario_parse3
  by (simp add: engine_eval scenario_investor_def)

lemma scenario_final_balance:
  "balance_of (fst (execute_investor_commands (MoneyBank_init [scenario_investor])
        ''John Doe'' scenario_lines [''Equity'', ''Debt''])) ''John Doe''
       = Some [6600, 3000]"
  unfolding execute_investor_commands_def scenario_parse3
  by (simp add: engine_eval scenario_investor_def)

lemma scenario_main:
  "main_with ''John Doe'' [''Equity'', ''Debt''] [60, 40] scenario_lines
     = ([''6600 3000''], None)"
proof -
  have n: "investor_name scenario_investor = ''John Doe''"
    by (simp add: scenario_investor_def)
  show ?thesis
    by (simp add: main_with_def scenario_build n scenario_after_balance)
qed

text \<open>
  C1, as amended. For the two-asset portfolio (Equity 60, Debt 40) the lines
  \<open>ALLOCATE 6000 3000\<close>, \<open>CHANGE 10% MARCH\<close>, \<open>BALANCE MARCH\<close> leave Equity = 6000 and
  Debt = 3000 after the allocate; the change command (month 3) applies the zero
  contribution to both assets and the rate to the first asset only, the single rate being
  paired with the first name of the asset order: Equity = 6600, Debt = 3000; the balance
  command prints \<open>6600 3000\<close>.
\<close>

theorem scenario_allocate_change_balance:
  "build_investor ''John Doe'' [''Equity'', ''Debt''] [60, 40] = Inr scenario_investor
   \<and> balance_of (fst (execute_investor_commands (MoneyBank_init [scenario_investor])
        ''John Doe'' (take 1 scenario_lines) [''Equity'', ''Debt''])) ''John Doe''
       = Some [6000, 3000]
   \<and> balance_of (fst (execute_investor_commands (MoneyBank_init [scenario_investor])
        ''John Doe'' (take 2 scenario_lines) [''Equity'', ''Debt''])) ''John Doe''
       = Some [6600, 3000]
   \<and> current_month (fst (execute_investor_commands (MoneyBank_init [scenario_investor])
        ''John Doe'' (take 2 scenario_lines) [''Equity'', ''Debt''])) = Some 3
   \<and> snd (execute_investor_commands (MoneyBank_init [scenario_investor])
        ''John Doe'' scenario_lines [''Equity'', ''Debt'']) = ([''6600 3000''], None)
   \<and> main_with ''John Doe'' [''Equity'', ''Debt''] [60, 40] scenario_lines
       = ([''6600 3000''], None)"
  using scenario_build scenario_main scenario_after_allocate scenario_after_change
    scenario_month_after_change scenario_after_balance
  by simp

text \<open>
  C1, as the specification states it, fails: after the three lines Debt is 3000, not
  3300, and the line printed is not \<open>6600 3300\<close>.
\<close>

theorem scenario_debt_counterexample:
  "balance_of (fst (execute_investor_commands (MoneyBank_init [scenario_investor])
        ''John Doe'' scenario_lines [''Equity'', ''Debt''])) ''John Doe''
       \<noteq> Some [6600, 3300]
   \<and> fst (snd (execute_investor_commands (MoneyBank_init [scenario_investor])
        ''John Doe'' scenario_lines [''Equity'', ''Debt''])) \<noteq> [''6600 3300'']"
  using scenario_final_balance scenario_after_balance by simp




section \<open>The bank\<close>

lemma REBALANCE_MONTHS_iff: "m \<in> set REBALANCE_MONTHS \<longleftrightarrow> m = 6 \<or> m = 12"
  by (auto simp: REBALANCE_MONTHS_def)

lemma run_commands_append:
  "run_commands b n (xs @ ys) =
     (case run_commands b n xs of
        (b', out, Some e) \<Rightarrow> (b', out, Some e)
      | (b', out, None) \<Rightarrow>
          (let (b'', out', r) = run_commands b' n ys in (b'', out @ out', r)))"
proof (induction xs arbitrary: b)
  case Nil
  then show ?case by (simp split: prod.splits)
next
  case (Cons x xs)
  show ?case
  proof (cases "dispatch b n x")
    case (fields b1 out1 r1)
    show ?thesis
    proof (cases r1)
      case None
      with fields Cons [of b1] show ?thesis
        by (simp split: prod.splits option.splits)
    next
      case (Some e)
      with fields show ?thesis by simp
    qed
  qed
qed

text \<open>
  The rejection where it does happen: a rebalance command that finds the current month
  set, by an earlier change command, to a month other than 6 and 12 prints exactly the
  line \<open>CANNOT_REBALANCE\<close>, returns the bank as it was (every allocation, weight,
  contribution and log entry unchanged), and the loop goes on with the commands that
  follow from that same bank. The hypothesis that the month is set is needed: without it
  the command raises, see section \<open>A rebalance command at the start of the input\<close>.
\<close>

theorem rebalance_rejected_outside_months:
  assumes "current_month b = Some m" and "m \<noteq> 6" and "m \<noteq> 12"
  shows "bank_rebalance b n = (b, [''CANNOT_REBALANCE''], Inr False)
    \<and> dispatch b n \<lparr>cmd_name = ''rebalance'', cmd_values = vs, cmd_month = k\<rparr>
        = (b, [''CANNOT_REBALANCE''], None)
    \<and> run_commands b n (\<lparr>cmd_name = ''rebalance'', cmd_values = vs, cmd_month = k\<rparr> # cs)
        = (fst (run_commands b n cs), ''CANNOT_REBALANCE'' # fst (snd (run_commands b n cs)),
           snd (snd (run_commands b n cs)))"
proof -
  have r: "bank_rebalance b n = (b, [''CANNOT_REBALANCE''], Inr False)"
    using assms by (simp add: bank_rebalance_def REBALANCE_MONTHS_iff REBALANCE_ERROR_MSG_def)
  have d: "dispatch b n \<lparr>cmd_name = ''rebalance'', cmd_values = vs, cmd_month = k\<rparr>
        = (b, [''CANNOT_REBALANCE''], None)"
    by (simp add: dispatch_def r)
  show ?thesis by (simp add: r d split: prod.splits)
qed

lemma bank_log_allocate [simp]: "bank_log (fst (bank_allocate b n vs)) = bank_log b"
  by (simp add: bank_allocate_def split: option.splits prod.splits)

lemma bank_log_sip [simp]: "bank_log (fst (bank_sip b n vs)) = bank_log b"
  by (simp add: bank_sip_def split: option.splits prod.splits)

lemma bank_log_add_sip [simp]: "bank_log (fst (bank_add_sip b n)) = bank_log b"
  by (simp add: bank_add_sip_def split: option.splits prod.splits)

lemma bank_log_apply_change [simp]: "bank_log (fst (bank_apply_change b n rates)) = bank_log b"
  by (simp add: bank_apply_change_def split: option.splits prod.splits)

lemma record_log_None:
  "bank_log b k = None \<Longrightarrow> bank_log (fst (record_log b m n)) k = None"
  by (auto simp: record_log_def split: option.splits)

lemma record_log_missing:
  "bank_log b m = None \<Longrightarrow> snd (record_log b m n) = Some KeyError \<and> fst (record_log b m n) = b"
  by (simp add: record_log_def split: option.splits)

lemma bank_change_log_None:
  "bank_log b k = None \<Longrightarrow> bank_log (fst (bank_change b n rates m)) k = None"
proof -
  assume k: "bank_log b k = None"
  define b0 where "b0 = b\<lparr>current_month := Some m\<rparr>"
  define b1 where "b1 = (if SIP_MONTH \<le> m then fst (bank_add_sip b0 n) else b0)"
  define b2 where "b2 = fst (bank_apply_change b1 n rates)"
  have l0: "bank_log b0 k = None" using k by (simp add: b0_def)
  have l1: "bank_log b1 k = None" using l0 by (simp add: b1_def)
  have l2: "bank_log b2 k = None" using l1 by (simp add: b2_def)
  have "fst (bank_change b n rates m) = b1 \<or> fst (bank_change b n rates m) = b2
      \<or> fst (bank_change b n rates m) = fst (record_log b2 m n)"
    by (auto simp: bank_change_def b0_def b1_def b2_def Let_def split: prod.splits option.splits)
  then show ?thesis using l1 l2 record_log_None [OF l2] by auto
qed

lemma bank_rebalance_log_None:
  "bank_log b k = None \<Longrightarrow> bank_log (fst (bank_rebalance b n)) k = None"
  by (auto simp: bank_rebalance_def Let_def record_log_def split: option.splits prod.splits if_splits)

lemma dispatch_fst:
  "fst (dispatch b n c) =
     (if cmd_name c = ''allocate'' then fst (bank_allocate b n (cmd_values c))
      else if cmd_name c = ''sip'' then fst (bank_sip b n (cmd_values c))
      else if cmd_name c = ''change'' then fst (bank_change b n (cmd_values c) (cmd_month c))
      else if cmd_name c = ''balance'' then b
      else if cmd_name c = ''rebalance'' then fst (bank_rebalance b n)
      else b)"
  by (simp add: dispatch_def split: prod.splits sum.splits option.splits bool.splits)

lemma dispatch_log_None:
  "bank_log b k = None \<Longrightarrow> bank_log (fst (dispatch b n c)) k = None"
  by (simp add: dispatch_fst bank_change_log_None bank_rebalance_log_None)

lemma run_commands_log_None:
  "bank_log b k = None \<Longrightarrow> bank_log (fst (run_commands b n cs)) k = None"
proof (induction cs arbitrary: b)
  case Nil
  then show ?case by simp
next
  case (Cons c cs)
  have d: "bank_log (fst (dispatch b n c)) k = None"
    using Cons.prems by (rule dispatch_log_None)
  show ?case
  proof (cases "dispatch b n c")
    case (fields b1 out1 r1)
    with d have b1: "bank_log b1 k = None" by simp
    show ?thesis
      using fields b1 Cons.IH [OF b1]
      by (cases r1) (auto split: prod.splits)
  qed
qed

lemma bank_change_december:
  assumes "bank_log b 12 = None"
  shows "snd (bank_change b n rates 12) \<noteq> None"
    and "snd (bank_add_sip (b\<lparr>current_month := Some 12\<rparr>) n) = None \<Longrightarrow>
         snd (bank_apply_change (fst (bank_add_sip (b\<lparr>current_month := Some 12\<rparr>) n)) n rates) = None \<Longrightarrow>
         snd (bank_change b n rates 12) = Some KeyError"
proof -
  define b0 where "b0 = b\<lparr>current_month := Some 12\<rparr>"
  define b1 where "b1 = fst (bank_add_sip b0 n)"
  define b2 where "b2 = fst (bank_apply_change b1 n rates)"
  have l2: "bank_log b2 12 = None" using assms by (simp add: b0_def b1_def b2_def)
  have rl: "snd (record_log b2 12 n) = Some KeyError"
    using record_log_missing [OF l2] by simp
  have c: "snd (bank_change b n rates 12) =
      (case snd (bank_add_sip b0 n) of
         Some e \<Rightarrow> Some e
       | None \<Rightarrow>
           (case snd (bank_apply_change b1 n rates) of
              Some e \<Rightarrow> Some e
            | None \<Rightarrow> snd (record_log b2 12 n)))"
  proof -
    obtain x1 r1 where a: "bank_add_sip b0 n = (x1, r1)" by (cases "bank_add_sip b0 n")
    obtain x2 r2 where c: "bank_apply_change x1 n rates = (x2, r2)"
      by (cases "bank_apply_change x1 n rates")
    have x1: "b1 = x1" by (simp add: b1_def a)
    have x2: "b2 = x2" by (simp add: b2_def x1 c)
    show ?thesis
      unfolding bank_change_def b0_def [symmetric] Let_def
      by (cases r1; cases r2) (simp_all add: SIP_MONTH_def a c x1 x2)
  qed
  show "snd (bank_change b n rates 12) \<noteq> None"
    by (simp add: c rl split: option.splits)
  show "snd (bank_change b n rates 12) = Some KeyError"
    if "snd (bank_add_sip (b\<lparr>current_month := Some 12\<rparr>) n) = None"
      and "snd (bank_apply_change (fst (bank_add_sip (b\<lparr>current_month := Some 12\<rparr>) n)) n rates) = None"
    using that by (simp add: c rl b0_def b1_def)
qed

lemma bank_rebalance_december:
  assumes "bank_log b 12 = None" and "current_month b = Some 12"
  shows "\<exists>e. snd (snd (bank_rebalance b n)) = Inl e"
    and "investors b n = Some p \<Longrightarrow> snd (rebalance p) = None \<Longrightarrow>
         snd (snd (bank_rebalance b n)) = Inl KeyError"
  using assms
  by (auto simp: bank_rebalance_def REBALANCE_MONTHS_iff record_log_def Let_def
      split: option.splits prod.splits)

lemma dispatch_keeps_unset:
  assumes "current_month b = None" and "cmd_name c \<noteq> ''change''"
  shows "current_month (fst (dispatch b n c)) = None"
  using assms
  by (auto simp: dispatch_fst bank_allocate_def bank_sip_def bank_rebalance_def
      split: option.splits prod.splits)

lemma run_commands_keeps_unset:
  assumes "\<forall>c \<in> set cs. cmd_name c \<noteq> ''change''" and "current_month b = None"
  shows "current_month (fst (run_commands b n cs)) = None"
  using assms
proof (induction cs arbitrary: b)
  case Nil
  then show ?case by simp
next
  case (Cons c cs)
  have d: "current_month (fst (dispatch b n c)) = None"
    using Cons.prems by (simp add: dispatch_keeps_unset)
  show ?case
  proof (cases "dispatch b n c")
    case (fields b1 out1 r1)
    with d have b1: "current_month b1 = None" by simp
    have "current_month (fst (run_commands b1 n cs)) = None"
      using Cons.IH [of b1] Cons.prems(1) b1 by simp
    then show ?thesis
      using fields b1 by (cases r1) (auto split: prod.splits)
  qed
qed

lemma bank_rebalance_unset:
  "current_month b = None \<Longrightarrow> bank_rebalance b n = (b, [], Inl AttributeError)"
  by (simp add: bank_rebalance_def)

text \<open>
  C10. The constructor leaves \<open>current_month\<close> unset; \<open>rebalance\<close> on a bank whose
  \<open>current_month\<close> is unset raises \<open>AttributeError\<close> and prints nothing; so a rebalance
  command that follows only commands other than \<open>change\<close> (all of them successful) ends
  the run with \<open>AttributeError\<close> instead of printing \<open>CANNOT_REBALANCE\<close>.
\<close>

theorem rebalance_before_change_raises:
  "current_month (MoneyBank_init ps) = None
   \<and> (current_month b = None \<longrightarrow>
        bank_rebalance b n = (b, [], Inl AttributeError)
        \<and> dispatch b n \<lparr>cmd_name = ''rebalance'', cmd_values = vs, cmd_month = k\<rparr>
            = (b, [], Some AttributeError))
   \<and> ((\<forall>c \<in> set cs. cmd_name c \<noteq> ''change'') \<longrightarrow>
        snd (snd (run_commands (MoneyBank_init ps) n cs)) = None \<longrightarrow>
        run_commands (MoneyBank_init ps) n
          (cs @ \<lparr>cmd_name = ''rebalance'', cmd_values = vs, cmd_month = k\<rparr> # rest)
        = (fst (run_commands (MoneyBank_init ps) n cs),
           fst (snd (run_commands (MoneyBank_init ps) n cs)), Some AttributeError))"
proof -
  have d: "dispatch b' n \<lparr>cmd_name = ''rebalance'', cmd_values = vs, cmd_month = k\<rparr>
            = (b', [], Some AttributeError)" if "current_month b' = None" for b'
    using that by (simp add: dispatch_def bank_rebalance_unset)
  have "run_commands (MoneyBank_init ps) n
          (cs @ \<lparr>cmd_name = ''rebalance'', cmd_values = vs, cmd_month = k\<rparr> # rest)
        = (fst (run_commands (MoneyBank_init ps) n cs),
           fst (snd (run_commands (MoneyBank_init ps) n cs)), Some AttributeError)"
    if nc: "\<forall>c \<in> set cs. cmd_name c \<noteq> ''change''"
      and ok: "snd (snd (run_commands (MoneyBank_init ps) n cs)) = None"
  proof -
    obtain b1 out1 r1 where run: "run_commands (MoneyBank_init ps) n cs = (b1, out1, r1)"
      by (metis prod_cases3)
    have r1: "r1 = None" using ok run by simp
    have "current_month b1 = None"
      using run_commands_keeps_unset [OF nc, of "MoneyBank_init ps" n] run by simp
    then show ?thesis
      by (simp add: run_commands_append run r1 d)
  qed
  then show ?thesis
    by (simp add: bank_rebalance_unset d)
qed

text \<open>
  C9. The log of a bank has entries for the keys 0 to 11 only, whatever commands were run
  on it. So a change command for month 12 never completes: once its contribution and its
  rate change are done, recording the snapshot raises \<open>KeyError\<close>; and a rebalance that
  finds the current month at 12, although permitted, raises as well, \<open>KeyError\<close> once
  the portfolio is rebalanced.
\<close>

theorem december_snapshot_raises:
  assumes "run_commands (MoneyBank_init ps) investor cs = (b, out, r)"
  shows "bank_log b 12 = None
     \<and> snd (bank_change b n rates 12) \<noteq> None
     \<and> (snd (bank_add_sip (b\<lparr>current_month := Some 12\<rparr>) n) = None \<longrightarrow>
        snd (bank_apply_change (fst (bank_add_sip (b\<lparr>current_month := Some 12\<rparr>) n)) n rates) = None \<longrightarrow>
        snd (bank_change b n rates 12) = Some KeyError)
     \<and> (current_month b = Some 12 \<longrightarrow>
          (\<exists>e. snd (snd (bank_rebalance b n)) = Inl e)
          \<and> (\<forall>p. investors b n = Some p \<longrightarrow> snd (rebalance p) = None \<longrightarrow>
                snd (snd (bank_rebalance b n)) = Inl KeyError))"
proof -
  have "bank_log (MoneyBank_init ps) 12 = None" by (simp add: bank_log_init)
  then have "bank_log (fst (run_commands (MoneyBank_init ps) investor cs)) 12 = None"
    by (rule run_commands_log_None)
  then have l: "bank_log b 12 = None" using assms by simp
  show ?thesis
    using l bank_change_december [OF l] bank_rebalance_december [OF l] by blast
qed

lemma double_of_rat_0 [simp]: "double_of_rat 0 = Finite 0"
  by (simp add: double_of_rat_def)

text \<open>An instance of the rejection: the bank of the scenario, in month 3.\<close>

theorem rebalance_rejected_witness:
  "current_month scenario_bank = Some 3 \<and> (3::int) \<noteq> 6 \<and> (3::int) \<noteq> 12
   \<and> bank_rebalance scenario_bank ''John Doe'' = (scenario_bank, [''CANNOT_REBALANCE''], Inr False)
   \<and> dispatch scenario_bank ''John Doe'' \<lparr>cmd_name = ''rebalance'', cmd_values = [], cmd_month = 0\<rparr>
       = (scenario_bank, [''CANNOT_REBALANCE''], None)
   \<and> run_commands scenario_bank ''John Doe'' [\<lparr>cmd_name = ''rebalance'', cmd_values = [], cmd_month = 0\<rparr>]
       = (scenario_bank, [''CANNOT_REBALANCE''], None)"
proof -
  have m: "current_month scenario_bank = Some 3"
    using scenario_month_after_change by (simp add: scenario_bank_def)
  show ?thesis
    using m rebalance_rejected_outside_months [OF m, of "''John Doe''" "[]" 0 "[]"] by simp
qed

lemma december_bank_eval:
  "current_month december_bank = Some 12"
  "investors december_bank ''John Doe'' = Some scenario_investor"
  "bank_log december_bank 12 = None"
  by (simp_all add: december_bank_def engine_eval scenario_investor_def)

text \<open>The witness for C9: the bank left by a December change on the scenario's portfolio.\<close>

theorem december_snapshot_witness:
  "run_commands (MoneyBank_init [scenario_investor]) ''John Doe''
       [\<lparr>cmd_name = ''change'', cmd_values = [], cmd_month = 12\<rparr>]
     = (december_bank, [], Some KeyError)
   \<and> snd (bank_add_sip (december_bank\<lparr>current_month := Some 12\<rparr>) ''John Doe'') = None
   \<and> snd (bank_apply_change
        (fst (bank_add_sip (december_bank\<lparr>current_month := Some 12\<rparr>) ''John Doe''))
        ''John Doe'' []) = None
   \<and> snd (bank_change december_bank ''John Doe'' [] 12) = Some KeyError
   \<and> current_month december_bank = Some 12
   \<and> investors december_bank ''John Doe'' = Some scenario_investor
   \<and> snd (rebalance scenario_investor) = None
   \<and> snd (snd (bank_rebalance december_bank ''John Doe'')) = Inl KeyError"
proof -
  have run: "run_commands (MoneyBank_init [scenario_investor]) ''John Doe''
       [\<lparr>cmd_name = ''change'', cmd_values = [], cmd_month = 12\<rparr>]
     = (december_bank, [], Some KeyError)"
    by (simp add: december_bank_def engine_eval scenario_investor_def)
  have s: "snd (bank_add_sip (december_bank\<lparr>current_month := Some 12\<rparr>) ''John Doe'') = None"
    by (simp add: bank_add_sip_def december_bank_eval scenario_investor_def engine_eval)
  have c: "snd (bank_apply_change
        (fst (bank_add_sip (december_bank\<lparr>current_month := Some 12\<rparr>) ''John Doe''))
        ''John Doe'' []) = None"
    by (simp add: bank_add_sip_def bank_apply_change_def december_bank_eval
        scenario_investor_def engine_eval)
  have r: "snd (rebalance scenario_investor) = None"
    by (simp add: rebalance_def balance_def scenario_investor_def int_truediv_def
        set_allocation_def bank_rounding_system_def)
  show ?thesis
    using december_snapshot_raises [OF run, of "''John Doe''" "[]"] run s c r december_bank_eval
    by simp
qed

text \<open>The witness for C10: an allocate command, then a rebalance command.\<close>

theorem rebalance_before_change_witness:
  "cmd_name \<lparr>cmd_name = ''allocate'', cmd_values = [], cmd_month = 0\<rparr> \<noteq> ''change''
   \<and> current_month (MoneyBank_init [scenario_investor]) = None
   \<and> bank_rebalance (MoneyBank_init [scenario_investor]) ''John Doe''
       = (MoneyBank_init [scenario_investor], [], Inl AttributeError)
   \<and> snd (snd (run_commands (MoneyBank_init [scenario_investor]) ''John Doe''
        [\<lparr>cmd_name = ''allocate'', cmd_values = [], cmd_month = 0\<rparr>])) = None
   \<and> snd (snd (run_commands (MoneyBank_init [scenario_investor]) ''John Doe''
        ([\<lparr>cmd_name = ''allocate'', cmd_values = [], cmd_month = 0\<rparr>]
          @ \<lparr>cmd_name = ''rebalance'', cmd_values = [], cmd_month = 0\<rparr> # []))) = Some AttributeError"
proof -
  have ok: "snd (snd (run_commands (MoneyBank_init [scenario_investor]) ''John Doe''
        [\<lparr>cmd_name = ''allocate'', cmd_values = [], cmd_month = 0\<rparr>])) = None"
    by (simp add: engine_eval scenario_investor_def)
  show ?thesis
    using ok rebalance_before_change_raises
      [of "[scenario_investor]" "MoneyBank_init [scenario_investor]" "''John Doe''" "[]" 0
          "[\<lparr>cmd_name = ''allocate'', cmd_values = [], cmd_month = 0\<rparr>]" "[]"]
    by simp
qed

section \<open>The change command\<close>

lemma record_log_keeps [simp]:
  "investors (fst (record_log b m n)) = investors b"
  "current_month (fst (record_log b m n)) = current_month b"
  by (simp_all add: record_log_def split: option.splits)

lemma bank_add_sip_month [simp]:
  "current_month (fst (bank_add_sip b n)) = current_month b"
  by (simp add: bank_add_sip_def split: option.splits prod.splits)

lemma bank_apply_change_month [simp]:
  "current_month (fst (bank_apply_change b n rates)) = current_month b"
  by (simp add: bank_apply_change_def split: option.splits prod.splits)

lemma bank_change_unfold:
  "bank_change b n rates m =
     (let b0 = b\<lparr>current_month := Some m\<rparr>;
          s = (if 2 \<le> m then bank_add_sip b0 n else (b0, None))
      in case snd s of
           Some e \<Rightarrow> (fst s, Some e)
         | None \<Rightarrow>
             (let c = bank_apply_change (fst s) n rates
              in case snd c of
                   Some e \<Rightarrow> (fst c, Some e)
                 | None \<Rightarrow> record_log (fst c) m n))"
  by (simp add: bank_change_def SIP_MONTH_def Let_def split: prod.splits option.splits)

lemma bank_change_month: "current_month (fst (bank_change b n rates m)) = Some m"
  by (simp add: bank_change_unfold Let_def split: option.splits)

lemma bank_change_with_sip:
  assumes "investors b n = Some p" and "2 \<le> m"
    and "add_sip p = (p1, None)" and "change p1 rates = (p2, r)"
  shows "investors (fst (bank_change b n rates m)) n = Some p2"
  using assms
  by (simp add: bank_change_unfold Let_def bank_add_sip_def bank_apply_change_def
      split: option.splits)

lemma bank_change_sip_fails:
  assumes "investors b n = Some p" and "2 \<le> m" and "add_sip p = (p1, Some e)"
  shows "bank_change b n rates m =
     (b\<lparr>current_month := Some m, investors := (investors b)(n \<mapsto> p1)\<rparr>, Some e)"
  using assms
  by (simp add: bank_change_unfold Let_def bank_add_sip_def)

lemma bank_change_without_sip:
  assumes "investors b n = Some p" and "m < 2" and "change p rates = (p2, r)"
  shows "investors (fst (bank_change b n rates m)) n = Some p2"
  using assms
  by (simp add: bank_change_unfold Let_def bank_apply_change_def split: option.splits)

text \<open>
  C2. A change command with month \<open>m\<close> sets \<open>current_month\<close> to \<open>m\<close>, whatever happens
  next. When \<open>2 \<le> m\<close> the portfolio stored afterwards is the result of the rate change
  on the result of one \<open>add_sip\<close> (and a failing \<open>add_sip\<close> ends the command before the
  rate change); when \<open>m < 2\<close> it is the result of the rate change on the portfolio as it
  was, no contribution applied.
\<close>

theorem change_applies_contribution_once:
  "current_month (fst (bank_change b n rates m)) = Some m
   \<and> (investors b n = Some p \<longrightarrow> 2 \<le> m \<longrightarrow> add_sip p = (p1, None) \<longrightarrow>
        change p1 rates = (p2, r) \<longrightarrow>
        investors (fst (bank_change b n rates m)) n = Some p2)
   \<and> (investors b n = Some p \<longrightarrow> 2 \<le> m \<longrightarrow> add_sip p = (p1, Some e) \<longrightarrow>
        bank_change b n rates m =
          (b\<lparr>current_month := Some m, investors := (investors b)(n \<mapsto> p1)\<rparr>, Some e))
   \<and> (investors b n = Some p \<longrightarrow> m < 2 \<longrightarrow> change p rates = (p3, r') \<longrightarrow>
        investors (fst (bank_change b n rates m)) n = Some p3)"
  apply (intro conjI impI)
     apply (rule bank_change_month)
    apply (rule bank_change_with_sip; assumption)
   apply (rule bank_change_sip_fails; assumption)
  apply (rule bank_change_without_sip; assumption)
  done

text \<open>
  The witness for C2: contributions of 100 and 200 stored for the portfolio of the
  scenario; a change for month 3 adds them once, a change for month 1 does not.
\<close>

theorem change_applies_contribution_once_witness:
  "investors (MoneyBank_init [sip_investor]) ''John Doe'' = Some sip_investor
   \<and> (2::int) \<le> 3 \<and> (1::int) < 2
   \<and> add_sip sip_investor = (fst (add_sip sip_investor), None)
   \<and> change (fst (add_sip sip_investor)) [] = (fst (add_sip sip_investor), None)
   \<and> change sip_investor [] = (sip_investor, None)
   \<and> balance (fst (add_sip sip_investor)) = [100, 200]
   \<and> current_month (fst (bank_change (MoneyBank_init [sip_investor]) ''John Doe'' [] 3)) = Some 3
   \<and> balance_of (fst (bank_change (MoneyBank_init [sip_investor]) ''John Doe'' [] 3)) ''John Doe''
       = Some [100, 200]
   \<and> balance_of (fst (bank_change (MoneyBank_init [sip_investor]) ''John Doe'' [] 1)) ''John Doe''
       = Some [0, 0]"
proof -
  have i: "investors (MoneyBank_init [sip_investor]) ''John Doe'' = Some sip_investor"
    by (simp add: sip_investor_def scenario_investor_def)
  have a: "add_sip sip_investor = (fst (add_sip sip_investor), None)"
    by (simp add: sip_investor_def scenario_investor_def engine_eval)
  have c: "change (fst (add_sip sip_investor)) [] = (fst (add_sip sip_investor), None)"
    by (simp add: change_def)
  have c1: "change sip_investor [] = (sip_investor, None)"
    by (simp add: change_def)
  have b: "balance (fst (add_sip sip_investor)) = [100, 200]"
    by (simp add: sip_investor_def scenario_investor_def engine_eval)
  have b0: "balance sip_investor = [0, 0]"
    by (simp add: sip_investor_def scenario_investor_def engine_eval)
  show ?thesis
    using change_applies_contribution_once
        [of "MoneyBank_init [sip_investor]" "''John Doe''" "[]" 3 sip_investor
            "fst (add_sip sip_investor)" "fst (add_sip sip_investor)" None]
      change_applies_contribution_once
        [of "MoneyBank_init [sip_investor]" "''John Doe''" "[]" 1 sip_investor _ _ _ _
            sip_investor None]
      i a c c1 b b0
    by (simp add: balance_of_def)
qed

section \<open>Dictionaries\<close>

lemma update_fresh:
  "k \<notin> fst ` set al \<Longrightarrow> AList.update k v al = al @ [(k, v)]"
  by (induction al) auto

lemma foldl_update_distinct:
  "distinct (map fst (acc @ ps)) \<Longrightarrow>
   foldl (\<lambda>d (k, v). AList.update k v d) acc ps = acc @ ps"
proof (induction ps arbitrary: acc)
  case Nil
  then show ?case by simp
next
  case (Cons x ps)
  obtain k v where x: "x = (k, v)" by (cases x)
  have fresh: "k \<notin> fst ` set acc" using Cons.prems by (auto simp: x)
  have d: "distinct (map fst ((acc @ [(k, v)]) @ ps))" using Cons.prems by (simp add: x)
  show ?case
    using Cons.IH [OF d] by (simp add: x update_fresh [OF fresh])
qed

lemma dict_of_distinct: "distinct (map fst ps) \<Longrightarrow> dict_of ps = ps"
  using foldl_update_distinct [of "[]" ps] by (simp add: dict_of_def)

lemma dict_of_zip:
  "distinct ks \<Longrightarrow> dict_of (zip ks vs) = zip ks vs"
  by (rule dict_of_distinct) (simp add: map_fst_zip_take)

section \<open>Construction\<close>

lemma make_assets_in_range:
  assumes "\<forall>w \<in> set (map snd nws). 0 \<le> w \<and> w \<le> 100"
  shows "make_assets nws =
     Inr (map (\<lambda>(n, w). \<lparr>asset_name = n, allocation = 0, weight = w\<rparr>) nws)"
  using assms
  by (induction nws)
    (auto simp: Asset_init_def set_allocation_def set_weight_def bank_rounding_system_def)

lemma InvestorPortfolio_init_100:
  "sum_list (map (\<lambda>(k, a). weight a) as) = 100 \<Longrightarrow>
   InvestorPortfolio_init n as =
     Inr \<lparr>investor_name = n, assets = as,
          sip = dict_of (zip (map fst as) (replicate (length as) (Finite 0)))\<rparr>"
  by (simp add: InvestorPortfolio_init_def)

lemma InvestorPortfolio_init_not_100:
  "sum_list (map (\<lambda>(k, a). weight a) as) \<noteq> 100 \<Longrightarrow>
   InvestorPortfolio_init n as = Inl ValueError"
  by (simp add: InvestorPortfolio_init_def)

lemma main_with_build_fails:
  "build_investor n asset_order ws = Inl e \<Longrightarrow>
   main_with n asset_order ws list_of_commands = ([], Some e)"
  by (simp add: main_with_def)

lemma sum_weights_zip:
  assumes "length ks = length ws"
  shows "sum_list (map (\<lambda>(k, a). weight a)
           (zip ks (map (\<lambda>(n, w). \<lparr>asset_name = n, allocation = 0, weight = w\<rparr>) (zip ks ws))))
         = sum_list ws"
  using assms by (induction ks ws rule: list_induct2) auto

lemma build_investor_weights:
  assumes "distinct asset_order" and "length asset_order = length ws"
    and "\<forall>w \<in> set ws. 0 \<le> w \<and> w \<le> 100"
  shows "build_investor n asset_order ws =
     InvestorPortfolio_init n
       (zip asset_order
          (map (\<lambda>(n, w). \<lparr>asset_name = n, allocation = 0, weight = w\<rparr>) (zip asset_order ws)))"
    and "sum_list (map (\<lambda>(k, a). weight a)
           (zip asset_order
              (map (\<lambda>(n, w). \<lparr>asset_name = n, allocation = 0, weight = w\<rparr>)
                 (zip asset_order ws)))) = sum_list ws"
proof -
  have r: "\<forall>w \<in> set (map snd (zip asset_order ws)). 0 \<le> w \<and> w \<le> 100"
    using assms(3) by (auto dest: set_zip_rightD)
  show "build_investor n asset_order ws =
     InvestorPortfolio_init n
       (zip asset_order
          (map (\<lambda>(n, w). \<lparr>asset_name = n, allocation = 0, weight = w\<rparr>) (zip asset_order ws)))"
    by (simp add: build_investor_def make_assets_in_range [OF r] dict_of_zip [OF assms(1)])
  show "sum_list (map (\<lambda>(k, a). weight a)
           (zip asset_order
              (map (\<lambda>(n, w). \<lparr>asset_name = n, allocation = 0, weight = w\<rparr>)
                 (zip asset_order ws)))) = sum_list ws"
    by (rule sum_weights_zip [OF assms(2)])
qed

text \<open>
  C5. A portfolio is constructed exactly when the weights of its assets sum to 100:
  then the constructor returns the portfolio, with the assets as given; for any other
  sum it raises \<open>ValueError\<close>. In the program the portfolio is built before the commands
  are read: with one weight in \<open>[0, 100]\<close> per asset name, a sum other than 100 ends the
  run with that error and with nothing printed, whatever the command lines are.
\<close>

theorem portfolio_weights_must_sum_to_100:
  "(sum_list (map (\<lambda>(k, a). weight a) as) = 100 \<longrightarrow>
      InvestorPortfolio_init n as =
        Inr \<lparr>investor_name = n, assets = as,
             sip = dict_of (zip (map fst as) (replicate (length as) (Finite 0)))\<rparr>)
   \<and> (sum_list (map (\<lambda>(k, a). weight a) as) \<noteq> 100 \<longrightarrow>
      InvestorPortfolio_init n as = Inl ValueError)
   \<and> (distinct asset_order \<longrightarrow> length asset_order = length ws \<longrightarrow>
      (\<forall>w \<in> set ws. 0 \<le> w \<and> w \<le> 100) \<longrightarrow>
        (sum_list ws = 100 \<longrightarrow> (\<exists>p. build_investor n asset_order ws = Inr p))
        \<and> (sum_list ws \<noteq> 100 \<longrightarrow>
             main_with n asset_order ws list_of_commands = ([], Some ValueError)))"
proof (intro conjI impI)
  assume "sum_list (map (\<lambda>(k, a). weight a) as) = 100"
  then show "InvestorPortfolio_init n as =
        Inr \<lparr>investor_name = n, assets = as,
             sip = dict_of (zip (map fst as) (replicate (length as) (Finite 0)))\<rparr>"
    by (rule InvestorPortfolio_init_100)
next
  assume "sum_list (map (\<lambda>(k, a). weight a) as) \<noteq> 100"
  then show "InvestorPortfolio_init n as = Inl ValueError"
    by (rule InvestorPortfolio_init_not_100)
next
  assume a: "distinct asset_order" "length asset_order = length ws"
    "\<forall>w \<in> set ws. 0 \<le> w \<and> w \<le> 100" and s: "sum_list ws = 100"
  show "\<exists>p. build_investor n asset_order ws = Inr p"
    using build_investor_weights(1) [OF a, where n = n] build_investor_weights(2) [OF a] s by (simp add: InvestorPortfolio_init_def)
next
  assume a: "distinct asset_order" "length asset_order = length ws"
    "\<forall>w \<in> set ws. 0 \<le> w \<and> w \<le> 100" and s: "sum_list ws \<noteq> 100"
  have "build_investor n asset_order ws = Inl ValueError"
    using build_investor_weights(1) [OF a, where n = n] build_investor_weights(2) [OF a] s by (simp add: InvestorPortfolio_init_def)
  then show "main_with n asset_order ws list_of_commands = ([], Some ValueError)"
    by (rule main_with_build_fails)
qed

text \<open>
  The witness for C5: the weights 60 and 40 build the portfolio of the scenario; the
  weights 60 and 30 end the run with \<open>ValueError\<close> before the first command.
\<close>

theorem portfolio_weights_witness:
  "sum_list (map (\<lambda>(k, a). weight a) (assets scenario_investor)) = 100
   \<and> InvestorPortfolio_init ''John Doe'' (assets scenario_investor) = Inr scenario_investor
   \<and> sum_list (map (\<lambda>(k, a). weight a) (tl (assets scenario_investor))) \<noteq> 100
   \<and> InvestorPortfolio_init ''John Doe'' (tl (assets scenario_investor)) = Inl ValueError
   \<and> distinct [''Equity'', ''Debt''] \<and> length [''Equity'', ''Debt''] = length [60, 30 :: int]
   \<and> (0::int) \<le> 60 \<and> (60::int) \<le> 100 \<and> (0::int) \<le> 30 \<and> (30::int) \<le> 100
   \<and> sum_list [60, 30 :: int] \<noteq> 100
   \<and> main_with ''John Doe'' [''Equity'', ''Debt''] [60, 30] scenario_lines
       = ([], Some ValueError)"
proof -
  have s: "sum_list (map (\<lambda>(k, a). weight a) (assets scenario_investor)) = 100"
    by (simp add: scenario_investor_def)
  have t: "sum_list (map (\<lambda>(k, a). weight a) (tl (assets scenario_investor))) \<noteq> 100"
    by (simp add: scenario_investor_def)
  have e: "\<lparr>investor_name = ''John Doe'', assets = assets scenario_investor,
             sip = dict_of (zip (map fst (assets scenario_investor))
                     (replicate (length (assets scenario_investor)) (Finite 0)))\<rparr>
           = scenario_investor"
    by (simp add: scenario_investor_def dict_of_def)
  have d: "distinct [''Equity'', ''Debt'']" by simp
  show ?thesis
    using portfolio_weights_must_sum_to_100
        [of "assets scenario_investor" "''John Doe''" "[''Equity'', ''Debt'']" "[60, 30]"
            scenario_lines]
      portfolio_weights_must_sum_to_100
        [of "tl (assets scenario_investor)" "''John Doe''" "[]" "[]" "[]"]
      s t e d
    by simp
qed

section \<open>The parser\<close>

lemma parse_line_empty: "parse_line [] asset_order = Inr None"
  by (simp add: parse_line_def)

lemma parse_line_single:
  "parse_line [t] asset_order =
     Inr (Some \<lparr>cmd_name = lower t, cmd_values = [], cmd_month = 0\<rparr>)"
  by (simp add: parse_line_def)

lemma parse_line_None_iff: "parse_line l asset_order = Inr None \<longleftrightarrow> l = []"
  by (cases l) (auto simp: parse_line_def split: sum.splits list.splits)

lemma parse_list_ok:
  "snd (parse_list_2_commands ls asset_order) = None \<Longrightarrow>
   map (\<lambda>c. Inr (Some c)) (fst (parse_list_2_commands ls asset_order)) =
     map (\<lambda>l. parse_line l asset_order) (filter (\<lambda>l. l \<noteq> []) ls)"
proof (induction ls)
  case Nil
  then show ?case by simp
next
  case (Cons l ls)
  show ?case
  proof (cases "parse_line l asset_order")
    case (Inl e)
    with Cons.prems show ?thesis by simp
  next
    case (Inr oc)
    show ?thesis
    proof (cases oc)
      case None
      with Inr have "l = []" by (simp add: parse_line_None_iff)
      with Cons Inr None show ?thesis by simp
    next
      case (Some c)
      with Inr have ne: "l \<noteq> []" using parse_line_None_iff [of l asset_order] by auto
      obtain cs r where p: "parse_list_2_commands ls asset_order = (cs, r)"
        by (cases "parse_list_2_commands ls asset_order")
      from Cons.prems Inr Some p have "r = None" by simp
      with Cons.IH p have "map (\<lambda>c. Inr (Some c)) cs =
          map (\<lambda>l. parse_line l asset_order) (filter (\<lambda>l. l \<noteq> []) ls)"
        by simp
      with Inr Some ne p show ?thesis by simp
    qed
  qed
qed

lemma parse_list_error:
  "snd (parse_list_2_commands ls asset_order) = Some e \<Longrightarrow>
   \<exists>k < length ls. parse_line (ls ! k) asset_order = Inl e
     \<and> map (\<lambda>c. Inr (Some c)) (fst (parse_list_2_commands ls asset_order)) =
         map (\<lambda>l. parse_line l asset_order) (filter (\<lambda>l. l \<noteq> []) (take k ls))"
proof (induction ls)
  case Nil
  then show ?case by simp
next
  case (Cons l ls)
  show ?case
  proof (cases "parse_line l asset_order")
    case (Inl e')
    with Cons.prems have "e' = e" by simp
    with Inl have "parse_line ((l # ls) ! 0) asset_order = Inl e
      \<and> map (\<lambda>c. Inr (Some c)) (fst (parse_list_2_commands (l # ls) asset_order)) =
         map (\<lambda>l. parse_line l asset_order) (filter (\<lambda>l. l \<noteq> []) (take 0 (l # ls)))"
      by simp
    then show ?thesis by blast
  next
    case (Inr oc)
    have tl: "snd (parse_list_2_commands ls asset_order) = Some e"
      using Cons.prems Inr by (cases oc) (simp_all split: prod.splits)
    from Cons.IH [OF tl] obtain k where k: "k < length ls"
      "parse_line (ls ! k) asset_order = Inl e"
      "map (\<lambda>c. Inr (Some c)) (fst (parse_list_2_commands ls asset_order)) =
         map (\<lambda>l. parse_line l asset_order) (filter (\<lambda>l. l \<noteq> []) (take k ls))"
      by blast
    have "map (\<lambda>c. Inr (Some c)) (fst (parse_list_2_commands (l # ls) asset_order)) =
         map (\<lambda>l. parse_line l asset_order) (filter (\<lambda>l. l \<noteq> []) (take (Suc k) (l # ls)))"
    proof (cases oc)
      case None
      with Inr have "l = []" by (simp add: parse_line_None_iff)
      with Inr None k(3) show ?thesis by simp
    next
      case (Some c)
      with Inr have ne: "l \<noteq> []" using parse_line_None_iff [of l asset_order] by auto
      obtain cs r where p: "parse_list_2_commands ls asset_order = (cs, r)"
        by (cases "parse_list_2_commands ls asset_order")
      with Inr Some k(3) ne show ?thesis by simp
    qed
    with k(1,2) have "Suc k < length (l # ls) \<and> parse_line ((l # ls) ! Suc k) asset_order = Inl e
      \<and> map (\<lambda>c. Inr (Some c)) (fst (parse_list_2_commands (l # ls) asset_order)) =
         map (\<lambda>l. parse_line l asset_order) (filter (\<lambda>l. l \<noteq> []) (take (Suc k) (l # ls)))"
      by simp
    then show ?thesis by blast
  qed
qed

text \<open>
  C6, as amended. The parser yields, in input order, one command for each input line
  that has at least one token and none for a line without tokens, up to the first line
  whose value tokens do not parse (there its exception ends the sequence); a line with
  exactly one token yields the command whose name is the lower-cased token, whose values
  are empty and whose month is 0.
\<close>

theorem parser_one_command_per_nonempty_line:
  "parse_line [] asset_order = Inr None
   \<and> parse_line [t] asset_order =
       Inr (Some \<lparr>cmd_name = lower t, cmd_values = [], cmd_month = 0\<rparr>)
   \<and> (snd (parse_list_2_commands ls asset_order) = None \<longrightarrow>
        map (\<lambda>c. Inr (Some c)) (fst (parse_list_2_commands ls asset_order)) =
          map (\<lambda>l. parse_line l asset_order) (filter (\<lambda>l. l \<noteq> []) ls))
   \<and> (snd (parse_list_2_commands ls asset_order) = Some e \<longrightarrow>
        (\<exists>k < length ls. parse_line (ls ! k) asset_order = Inl e
          \<and> map (\<lambda>c. Inr (Some c)) (fst (parse_list_2_commands ls asset_order)) =
              map (\<lambda>l. parse_line l asset_order) (filter (\<lambda>l. l \<noteq> []) (take k ls))))"
  using parse_line_empty parse_line_single parse_list_ok parse_list_error by blast

text \<open>
  C6, as the specification states it, fails on a line without tokens: the input of one
  empty line yields no command at all.
\<close>

theorem parser_empty_line_counterexample:
  "length (fst (parse_list_2_commands [[]] [''Equity'', ''Debt''])) \<noteq> length [[] :: string list]"
  by (simp add: parse_line_def)

text \<open>
  The witness for C6: three lines, the second without tokens, yield two commands.
\<close>

theorem parser_one_command_witness:
  "snd (parse_list_2_commands [[''ALLOCATE'', ''6000'', ''3000''], [], [''REBALANCE'']]
          [''Equity'', ''Debt'']) = None
   \<and> fst (parse_list_2_commands [[''ALLOCATE'', ''6000'', ''3000''], [], [''REBALANCE'']]
          [''Equity'', ''Debt''])
      = [\<lparr>cmd_name = ''allocate'',
           cmd_values = [(''Equity'', Finite 6000), (''Debt'', Finite 3000)], cmd_month = 0\<rparr>,
         \<lparr>cmd_name = ''rebalance'', cmd_values = [], cmd_month = 0\<rparr>]
   \<and> map (\<lambda>c. Inr (Some c))
        (fst (parse_list_2_commands [[''ALLOCATE'', ''6000'', ''3000''], [], [''REBALANCE'']]
          [''Equity'', ''Debt'']))
      = map (\<lambda>l. parse_line l [''Equity'', ''Debt''])
          (filter (\<lambda>l. l \<noteq> []) [[''ALLOCATE'', ''6000'', ''3000''], [], [''REBALANCE'']])"
proof -
  have p: "parse_list_2_commands [[''ALLOCATE'', ''6000'', ''3000''], [], [''REBALANCE'']]
          [''Equity'', ''Debt'']
      = ([\<lparr>cmd_name = ''allocate'',
           cmd_values = [(''Equity'', Finite 6000), (''Debt'', Finite 3000)], cmd_month = 0\<rparr>,
         \<lparr>cmd_name = ''rebalance'', cmd_values = [], cmd_month = 0\<rparr>], None)"
    by (simp add: parse_eval)
  have s: "snd (parse_list_2_commands [[''ALLOCATE'', ''6000'', ''3000''], [], [''REBALANCE'']]
          [''Equity'', ''Debt'']) = None"
    by (simp only: p snd_conv)
  have f: "fst (parse_list_2_commands [[''ALLOCATE'', ''6000'', ''3000''], [], [''REBALANCE'']]
          [''Equity'', ''Debt''])
      = [\<lparr>cmd_name = ''allocate'',
           cmd_values = [(''Equity'', Finite 6000), (''Debt'', Finite 3000)], cmd_month = 0\<rparr>,
         \<lparr>cmd_name = ''rebalance'', cmd_values = [], cmd_month = 0\<rparr>]"
    by (simp only: p fst_conv)
  have m: "map (\<lambda>c. Inr (Some c))
        (fst (parse_list_2_commands [[''ALLOCATE'', ''6000'', ''3000''], [], [''REBALANCE'']]
          [''Equity'', ''Debt'']))
      = map (\<lambda>l. parse_line l [''Equity'', ''Debt''])
          (filter (\<lambda>l. l \<noteq> []) [[''ALLOCATE'', ''6000'', ''3000''], [], [''REBALANCE'']])"
    using parser_one_command_per_nonempty_line
      [where asset_order = "[''Equity'', ''Debt'']"
         and ls = "[[''ALLOCATE'', ''6000'', ''3000''], [], [''REBALANCE'']]"] s
    by blast
  from s f m show ?thesis by (intro conjI)
qed

section \<open>Lines with arguments\<close>

lemma month_names_lower:
  "map lower (tl month_name) = map fst MONTH_NUMBER"
  by (simp add: MONTH_NUMBER_eq month_name_def lower_def lower_char_def char_of_eq_iff)

lemma month_lookup:
  assumes "1 \<le> i" and "i \<le> 12" and "s = lower (month_name ! i)"
  shows "map_of MONTH_NUMBER s = Some (int i)"
proof -
  from assms(1,2) have "i = 1 \<or> i = 2 \<or> i = 3 \<or> i = 4 \<or> i = 5 \<or> i = 6 \<or> i = 7 \<or> i = 8
      \<or> i = 9 \<or> i = 10 \<or> i = 11 \<or> i = 12"
    by arith
  then show ?thesis
    using assms(3)
    by (elim disjE)
      (simp_all add: MONTH_NUMBER_eq month_name_def lower_def lower_char_def char_of_eq_iff)
qed

lemma month_member:
  assumes "1 \<le> i" and "i \<le> 12" and "s = lower (month_name ! i)"
  shows "s \<in> set (map fst MONTH_NUMBER)"
  using month_lookup [OF assms] by (force dest: map_of_SomeD simp: image_iff)

lemma month_number_from_name_eq:
  "month_number_from_name s =
     (case map_of MONTH_NUMBER (lower s) of None \<Rightarrow> Inl KeyError | Some i \<Rightarrow> Inr i)"
  by (simp add: month_number_from_name_def)

lemma floats_list_all2:
  "list_of_strings_2_floats toks = Inr vs \<longleftrightarrow>
     list_all2 (\<lambda>t v. parse_nums t = Inr v) toks vs"
proof (induction toks arbitrary: vs)
  case Nil
  then show ?case by auto
next
  case (Cons t toks)
  show ?case
  proof (cases vs)
    case Nil
    then show ?thesis by (auto split: sum.splits)
  next
    case (Cons v vs')
    then show ?thesis using Cons.IH [of vs'] by (auto split: sum.splits)
  qed
qed

lemma float_truediv_int_100: "float_truediv_int x 100 = float_truediv x (Finite 100)"
  by (simp add: float_truediv_int_def float_of_int_exact)

lemma parse_nums_eq:
  "parse_nums v =
     (if CHR ''%'' \<in> set v then
        (case py_float (filter (\<lambda>ch. ch \<noteq> CHR ''%'') v) of
           Inl e \<Rightarrow> Inl e
         | Inr x \<Rightarrow> float_truediv x (Finite 100))
      else py_float v)"
  by (simp add: parse_nums_def float_truediv_int_100 split: sum.splits)

lemma parse_line_month:
  assumes "rest \<noteq> []" and "1 \<le> i" and "i \<le> 12"
    and "lower (last rest) = lower (month_name ! i)"
    and "list_all2 (\<lambda>t v. parse_nums t = Inr v) (butlast rest) vs"
  shows "parse_line (c # rest) asset_order =
     Inr (Some \<lparr>cmd_name = lower c, cmd_values = dict_of (zip asset_order vs),
                cmd_month = int i\<rparr>)"
proof -
  have m: "lower (last rest) \<in> set (map fst MONTH_NUMBER)"
    using month_member [OF assms(2,3,4)] .
  have l: "map_of MONTH_NUMBER (lower (last rest)) = Some (int i)"
    using month_lookup [OF assms(2,3,4)] .
  have f: "list_of_strings_2_floats (butlast rest) = Inr vs"
    using assms(5) by (simp add: floats_list_all2)
  have len: "\<not> length (c # rest) < 2" using assms(1) by (cases rest) auto
  show ?thesis
    unfolding parse_line_def
    using m l f len by (simp add: month_number_from_name_eq)
qed

lemma parse_line_no_month:
  assumes "rest \<noteq> []"
    and "lower (last rest) \<notin> set (map lower (tl month_name))"
    and "list_all2 (\<lambda>t v. parse_nums t = Inr v) rest vs"
  shows "parse_line (c # rest) asset_order =
     Inr (Some \<lparr>cmd_name = lower c, cmd_values = dict_of (zip asset_order vs),
                cmd_month = 0\<rparr>)"
proof -
  have m: "lower (last rest) \<notin> set (map fst MONTH_NUMBER)"
    using assms(2) by (simp add: month_names_lower)
  have f: "list_of_strings_2_floats rest = Inr vs"
    using assms(3) by (simp add: floats_list_all2)
  have len: "\<not> length (c # rest) < 2" using assms(1) by (cases rest) auto
  show ?thesis
    unfolding parse_line_def
    using m f len by simp
qed

text \<open>A token of decimal digits only is read as the number it writes, rounded to binary64.\<close>

lemma digit_not_space: "is_digit c \<Longrightarrow> \<not> is_space c"
  by (auto simp: is_digit_def is_space_def)

lemma digits_strip:
  assumes "list_all is_digit ds"
  shows "strip ds = ds"
proof (cases ds)
  case Nil
  then show ?thesis by (simp add: strip_def)
next
  case (Cons c cs)
  have h: "\<not> is_space (hd ds)" using assms Cons by (simp add: digit_not_space)
  have "ds \<noteq> []" using Cons by simp
  then have l: "\<not> is_space (last ds)"
    using assms by (simp add: list_all_iff digit_not_space)
  have 1: "dropWhile is_space ds = ds" using h Cons by simp
  have "rev ds \<noteq> []" using Cons by simp
  then have 2: "dropWhile is_space (rev ds) = rev ds"
    using l \<open>ds \<noteq> []\<close> by (cases "rev ds") (auto simp: hd_rev [symmetric])
  show ?thesis by (simp add: strip_def 1 2)
qed

lemma digits_underscores_ok:
  "list_all is_digit ds \<Longrightarrow> prev \<noteq> CHR ''_'' \<Longrightarrow> underscores_ok prev ds"
proof (induction ds arbitrary: prev)
  case Nil
  then show ?case by simp
next
  case (Cons c cs)
  have c: "c \<noteq> CHR ''_''" using Cons.prems(1) by (auto simp: is_digit_def)
  show ?case using Cons c by simp
qed

lemma digits_filter:
  "list_all is_digit ds \<Longrightarrow> filter (\<lambda>c. c \<noteq> CHR ''_'') ds = ds"
  by (induction ds) (auto simp: is_digit_def)

lemma digit_lower: "is_digit c \<Longrightarrow> lower_char c = c"
  by (auto simp: is_digit_def lower_char_def Let_def)

lemma digits_lower: "list_all is_digit ds \<Longrightarrow> lower ds = ds"
  by (induction ds) (auto simp: lower_def digit_lower)

lemma py_float_digits:
  assumes "ds \<noteq> []" and "list_all is_digit ds"
  shows "py_float ds = Inr (double_of_rat (of_nat (nat_of_digits ds)))"
proof -
  obtain c cs where ds: "ds = c # cs" using assms(1) by (cases ds) auto
  have dc: "is_digit c" using assms(2) ds by simp
  have sign: "parse_sign ds = (False, ds)"
    using dc by (auto simp: parse_sign_def ds is_digit_def)
  have n1: "ds \<noteq> ''inf''" "ds \<noteq> ''infinity''" "ds \<noteq> ''nan''"
    using dc by (auto simp: ds is_digit_def)
  have tw: "takeWhile is_digit ds = ds" "dropWhile is_digit ds = []"
    using assms(2) by (simp_all add: list_all_iff)
  have pd: "parse_decimal ds = Some (of_nat (nat_of_digits ds))"
    using assms(1) by (simp add: parse_decimal_def tw parse_exponent_def pow10_def)
  show ?thesis
    using n1
    by (simp add: py_float_def digits_strip [OF assms(2)] digits_filter [OF assms(2)]
        digits_underscores_ok [OF assms(2)] sign digits_lower [OF assms(2)] pd)
qed

text \<open>
  C7. For a line with at least two tokens the command carries the lower-cased first token
  as its name. When the last token, lower-cased, equals the lower-cased \<open>i\<close>-th month
  name, the month is \<open>i\<close> and the values are read from the tokens in between; when it
  equals none of them, the month is 0 and the values are read from all the tokens after
  the first. A token with a percent sign is read without its percent signs and divided by
  100, any other token is read by \<open>float\<close>, which reads a string of decimal digits as the
  number it writes. The values are paired with the asset names by position.
\<close>

theorem parse_line_with_arguments:
  assumes "rest \<noteq> []"
  shows "(1 \<le> i \<and> i \<le> 12 \<and> lower (last rest) = lower (month_name ! i)
          \<and> list_all2 (\<lambda>t v. parse_nums t = Inr v) (butlast rest) vs \<longrightarrow>
        parse_line (c # rest) asset_order =
          Inr (Some \<lparr>cmd_name = lower c, cmd_values = dict_of (zip asset_order vs),
                     cmd_month = int i\<rparr>))
    \<and> (lower (last rest) \<notin> set (map lower (tl month_name))
          \<and> list_all2 (\<lambda>t v. parse_nums t = Inr v) rest vs \<longrightarrow>
        parse_line (c # rest) asset_order =
          Inr (Some \<lparr>cmd_name = lower c, cmd_values = dict_of (zip asset_order vs),
                     cmd_month = 0\<rparr>))
    \<and> parse_nums v =
        (if CHR ''%'' \<in> set v then
           (case py_float (filter (\<lambda>ch. ch \<noteq> CHR ''%'') v) of
              Inl e \<Rightarrow> Inl e
            | Inr x \<Rightarrow> float_truediv x (Finite 100))
         else py_float v)
    \<and> (ds \<noteq> [] \<and> list_all is_digit ds \<longrightarrow>
        py_float ds = Inr (double_of_rat (of_nat (nat_of_digits ds))))
    \<and> (distinct asset_order \<longrightarrow> dict_of (zip asset_order vs) = zip asset_order vs)"
  using parse_line_month [OF assms] parse_line_no_month [OF assms] parse_nums_eq
    py_float_digits dict_of_zip
  by blast

text \<open>
  The witness for C7: the change line of the scenario (a month at the end) and its allocate
  line (no month).
\<close>

theorem parse_line_with_arguments_witness:
  "[''10%'', ''MARCH''] \<noteq> [] \<and> (1::nat) \<le> 3 \<and> (3::nat) \<le> 12
   \<and> lower (last [''10%'', ''MARCH'']) = lower (month_name ! 3)
   \<and> list_all2 (\<lambda>t v. parse_nums t = Inr v) (butlast [''10%'', ''MARCH''])
        [Finite (3602879701896397 / 36028797018963968)]
   \<and> parse_line (''CHANGE'' # [''10%'', ''MARCH'']) [''Equity'', ''Debt''] =
        Inr (Some \<lparr>cmd_name = ''change'',
                   cmd_values = [(''Equity'', Finite (3602879701896397 / 36028797018963968))],
                   cmd_month = 3\<rparr>)
   \<and> lower (last [''6000'', ''3000'']) \<notin> set (map lower (tl month_name))
   \<and> list_all2 (\<lambda>t v. parse_nums t = Inr v) [''6000'', ''3000''] [Finite 6000, Finite 3000]
   \<and> parse_line (''ALLOCATE'' # [''6000'', ''3000'']) [''Equity'', ''Debt''] =
        Inr (Some \<lparr>cmd_name = ''allocate'',
                   cmd_values = [(''Equity'', Finite 6000), (''Debt'', Finite 3000)],
                   cmd_month = 0\<rparr>)
   \<and> ''6000'' \<noteq> [] \<and> list_all is_digit ''6000'' \<and> py_float ''6000'' = Inr (Finite 6000)
   \<and> distinct [''Equity'', ''Debt'']"
proof -
  have ne: "[''10%'', ''MARCH''] \<noteq> []" "[''6000'', ''3000''] \<noteq> []" by simp_all
  have m: "lower (last [''10%'', ''MARCH'']) = lower (month_name ! 3)"
    by (simp add: month_name_def lower_def lower_char_def char_of_eq_iff)
  have v1: "list_all2 (\<lambda>t v. parse_nums t = Inr v) (butlast [''10%'', ''MARCH''])
        [Finite (3602879701896397 / 36028797018963968)]"
    by (simp add: parse_eval)
  have nm: "lower (last [''6000'', ''3000'']) \<notin> set (map lower (tl month_name))"
    by (simp add: month_names_lower MONTH_NUMBER_eq str_eval)
  have v2: "list_all2 (\<lambda>t v. parse_nums t = Inr v) [''6000'', ''3000'']
        [Finite 6000, Finite 3000]"
    by (simp add: parse_eval)
  have dg: "''6000'' \<noteq> []" "list_all is_digit ''6000''" by (simp_all add: is_digit_def)
  have d: "distinct [''Equity'', ''Debt'']" by simp
  have lc: "lower ''CHANGE'' = ''change''" "lower ''ALLOCATE'' = ''allocate''"
    by (simp_all add: lower_def lower_char_def char_of_eq_iff)
  have z: "dict_of (zip [''Equity'', ''Debt''] [Finite (3602879701896397 / 36028797018963968)])
      = [(''Equity'', Finite (3602879701896397 / 36028797018963968))]"
    "dict_of (zip [''Equity'', ''Debt''] [Finite 6000, Finite 3000])
      = [(''Equity'', Finite 6000), (''Debt'', Finite 3000)]"
    by (simp_all add: dict_of_def)
  have n6: "double_of_rat (of_nat (nat_of_digits ''6000'')) = Finite 6000"
    by (simp add: nat_of_digits_def digit_val_def)
  have h1: "1 \<le> (3::nat) \<and> (3::nat) \<le> 12
      \<and> lower (last [''10%'', ''MARCH'']) = lower (month_name ! 3)
      \<and> list_all2 (\<lambda>t v. parse_nums t = Inr v) (butlast [''10%'', ''MARCH''])
           [Finite (3602879701896397 / 36028797018963968)]"
    using m v1 by (intro conjI) simp_all
  have h2: "lower (last [''6000'', ''3000'']) \<notin> set (map lower (tl month_name))
      \<and> list_all2 (\<lambda>t v. parse_nums t = Inr v) [''6000'', ''3000''] [Finite 6000, Finite 3000]"
    using nm v2 by (intro conjI)
  have h3: "''6000'' \<noteq> [] \<and> list_all is_digit ''6000''"
    using dg by (intro conjI)
  have p1: "parse_line (''CHANGE'' # [''10%'', ''MARCH'']) [''Equity'', ''Debt''] =
        Inr (Some \<lparr>cmd_name = lower ''CHANGE'',
                   cmd_values = dict_of (zip [''Equity'', ''Debt'']
                     [Finite (3602879701896397 / 36028797018963968)]),
                   cmd_month = int 3\<rparr>)"
    by (rule mp [OF conjunct1 [OF parse_line_with_arguments [OF ne(1), where i = 3
        and c = "''CHANGE''" and vs = "[Finite (3602879701896397 / 36028797018963968)]"
        and asset_order = "[''Equity'', ''Debt'']"]] h1])
  have p2: "parse_line (''ALLOCATE'' # [''6000'', ''3000'']) [''Equity'', ''Debt''] =
        Inr (Some \<lparr>cmd_name = lower ''ALLOCATE'',
                   cmd_values = dict_of (zip [''Equity'', ''Debt''] [Finite 6000, Finite 3000]),
                   cmd_month = 0\<rparr>)"
    by (rule mp [OF conjunct1 [OF conjunct2 [OF parse_line_with_arguments [OF ne(2),
        where c = "''ALLOCATE''" and vs = "[Finite 6000, Finite 3000]"
        and asset_order = "[''Equity'', ''Debt'']"]]] h2])
  have f0: "py_float ''6000'' = Inr (double_of_rat (of_nat (nat_of_digits ''6000'')))"
    by (rule mp [OF conjunct1 [OF conjunct2 [OF conjunct2 [OF conjunct2
        [OF parse_line_with_arguments [OF ne(2), where ds = "''6000''"]]]]] h3])
  have f: "py_float ''6000'' = Inr (Finite 6000)"
    by (simp only: f0 n6)
  have q1: "parse_line (''CHANGE'' # [''10%'', ''MARCH'']) [''Equity'', ''Debt''] =
        Inr (Some \<lparr>cmd_name = ''change'',
                   cmd_values = [(''Equity'', Finite (3602879701896397 / 36028797018963968))],
                   cmd_month = 3\<rparr>)"
    using p1 by (simp only: lc z of_nat_numeral)
  have q2: "parse_line (''ALLOCATE'' # [''6000'', ''3000'']) [''Equity'', ''Debt''] =
        Inr (Some \<lparr>cmd_name = ''allocate'',
                   cmd_values = [(''Equity'', Finite 6000), (''Debt'', Finite 3000)],
                   cmd_month = 0\<rparr>)"
    using p2 by (simp only: lc z)
  have o: "(1::nat) \<le> 3" "(3::nat) \<le> 12" by simp_all
  show ?thesis
    by (intro conjI) (fact ne m v1 nm v2 dg d f q1 q2 o)+
qed

section \<open>Division of an int by 100\<close>

lemma round_mag_error:
  "\<bar>round_mag x - x\<bar> \<le> pow2 (max (ilog2 x - 52) (- 1074)) / 2"
proof -
  define s where "s = max (ilog2 x - 52) (- 1074)"
  define y where "y = x / pow2 s"
  have rm: "round_mag x = of_int (round_half_even y) * pow2 s"
    by (simp add: round_mag_def Let_def s_def y_def)
  have "(of_int (round_half_even y) - y) * pow2 s = of_int (round_half_even y) * pow2 s - x"
    by (simp add: algebra_simps y_def)
  with rm have "round_mag x - x = (of_int (round_half_even y) - y) * pow2 s"
    by simp
  then have "\<bar>round_mag x - x\<bar> = \<bar>of_int (round_half_even y) - y\<bar> * \<bar>pow2 s\<bar>"
    by (simp only: abs_mult)
  also have "\<dots> = \<bar>of_int (round_half_even y) - y\<bar> * pow2 s"
    by (simp only: abs_of_pos [OF pow2_pos])
  also have "\<dots> \<le> (1 / 2) * pow2 s"
    by (rule mult_right_mono [OF round_half_even_error]) (simp add: less_imp_le)
  finally show ?thesis by (simp add: s_def)
qed

lemma ilog2_less:
  assumes "0 < x" and "x < pow2 n"
  shows "ilog2 x < n"
proof -
  have "pow2 (ilog2 x) \<le> x" using ilog2_bounds [OF assms(1)] by simp
  with assms(2) have "pow2 (ilog2 x) < pow2 n" by linarith
  then show ?thesis by simp
qed

lemma double_of_rat_small_error:
  assumes "0 < x" and "x < pow2 47"
  shows "\<exists>r. double_of_rat x = Finite r \<and> double_of_rat (- x) = Finite (- r)
             \<and> \<bar>r - x\<bar> \<le> 1 / 128"
proof -
  define s where "s = max (ilog2 x - 52) (- 1074)"
  have "ilog2 x < 47" using ilog2_less [OF assms] .
  then have "s \<le> - 6" by (simp add: s_def)
  then have "pow2 s \<le> pow2 (- 6)" by simp
  then have ps: "pow2 s \<le> 1 / 64" by (simp add: pow2_def)
  have "\<bar>round_mag x - x\<bar> \<le> pow2 s / 2" using round_mag_error [of x] by (simp add: s_def)
  with ps have err: "\<bar>round_mag x - x\<bar> \<le> 1 / 128" by linarith
  have "pow2 47 + 1 < pow2 1024" by (simp add: pow2_def)
  with err assms(2) have lt: "\<not> pow2 1024 \<le> round_mag x" by linarith
  have "double_of_rat x = Finite (round_mag x)"
    using assms(1) lt by (simp add: double_of_rat_def)
  moreover have "double_of_rat (- x) = Finite (- round_mag x)"
    using assms(1) lt by (simp add: double_of_rat_def)
  ultimately show ?thesis using err by blast
qed

lemma pos_quotient_trunc:
  assumes "0 < a" and "a < 100 * 2 ^ 47"
  shows "\<exists>r. 0 < r \<and> double_of_rat (of_int a / 100) = Finite r
             \<and> double_of_rat (- (of_int a / 100)) = Finite (- r)
             \<and> \<lfloor>r\<rfloor> = a div 100"
proof -
  define x :: rat where "x = of_int a / 100"
  define k where "k = a div 100"
  define m where "m = a mod 100"
  have a: "a = 100 * k + m" by (simp add: k_def m_def)
  have m: "0 \<le> m" "m < 100" by (simp_all add: m_def)
  have xk: "x = of_int k + of_int m / 100" by (simp add: x_def a)
  have xpos: "0 < x" using assms(1) by (simp add: x_def)
  have "(of_int a :: rat) < of_int (100 * 2 ^ 47)" using assms(2) by (simp only: of_int_less_iff)
  then have x47: "x < pow2 47" by (simp add: x_def pow2_def)
  have k0: "0 \<le> k" using assms(1) by (simp add: k_def pos_imp_zdiv_nonneg_iff)
  show ?thesis
  proof (cases "m = 0")
    case True
    then have xi: "x = of_int k" by (simp add: xk)
    have kpos: "0 < k" using xpos xi by simp
    have "(of_int k :: rat) < pow2 53" using x47 xi pow2_strict_mono [of 47 53] by linarith
    then have "(of_int k :: rat) < of_int (2 ^ 53)" by (simp add: pow2_def)
    then have "k < 2 ^ 53" by (simp only: of_int_less_iff)
    then have k53: "\<bar>k\<bar> < 2 ^ 53" using kpos by simp
    have 1: "double_of_rat x = Finite x" using double_of_rat_exact [OF k53] by (simp add: xi)
    have k53': "\<bar>- k\<bar> < 2 ^ 53" using k53 by simp
    have 2: "double_of_rat (- x) = Finite (- x)"
      using double_of_rat_exact [OF k53'] by (simp add: xi)
    have 3: "\<lfloor>x\<rfloor> = k" by (simp add: xi)
    have "0 < x \<and> double_of_rat x = Finite x \<and> double_of_rat (- x) = Finite (- x)
        \<and> \<lfloor>x\<rfloor> = a div 100"
      using xpos 1 2 3 by (simp add: k_def)
    then show ?thesis unfolding x_def by blast
  next
    case False
    with m have m1: "1 \<le> m" "m \<le> 99" by simp_all
    have lo: "of_int k + 1 / 100 \<le> x"
    proof -
      have "(1::rat) \<le> of_int m" using m1(1) by simp
      then show ?thesis by (simp add: xk)
    qed
    have hi: "x \<le> of_int k + 99 / 100"
    proof -
      have "(of_int m :: rat) \<le> 99" using m1(2) by simp
      then show ?thesis by (simp add: xk)
    qed
    obtain r where r: "double_of_rat x = Finite r" "double_of_rat (- x) = Finite (- r)"
      "\<bar>r - x\<bar> \<le> 1 / 128"
      using double_of_rat_small_error [OF xpos x47] by blast
    have rl: "of_int k < r" using r(3) lo by linarith
    have rh: "r < of_int k + 1" using r(3) hi by linarith
    have fl: "\<lfloor>r\<rfloor> = k" using rl rh by (simp add: floor_unique less_imp_le)
    have "0 < r" using rl k0 by (metis of_int_0_le_iff order_le_less_trans)
    then have "0 < r \<and> double_of_rat x = Finite r \<and> double_of_rat (- x) = Finite (- r)
        \<and> \<lfloor>r\<rfloor> = a div 100"
      using r(1,2) fl by (simp add: k_def)
    then show ?thesis unfolding x_def by blast
  qed
qed

lemma int_truediv_100_trunc:
  assumes "\<bar>a\<bar> < 100 * 2 ^ 47"
  shows "\<exists>r. int_truediv a 100 = Inr (Finite r)
             \<and> truncate_rat r = truncate_toward_zero (of_int a / 100)"
proof -
  consider "a = 0" | "0 < a" | "a < 0" by linarith
  then show ?thesis
  proof cases
    case 1
    then show ?thesis
      by (simp add: int_truediv_def double_of_rat_def truncate_rat_def truncate_toward_zero_def)
  next
    case 2
    with assms have b: "a < 100 * 2 ^ 47" by simp
    obtain r where r: "0 < r" "double_of_rat (of_int a / 100) = Finite r" "\<lfloor>r\<rfloor> = a div 100"
      using pos_quotient_trunc [OF 2 b] by blast
    have "\<lfloor>(of_int a / 100 :: rat)\<rfloor> = a div 100"
      using floor_divide_of_int_eq [of a 100, where ?'a = rat] by simp
    moreover have "\<not> (of_int a / 100 :: rat) < 0" using 2 by simp
    ultimately show ?thesis
      using r by (simp add: int_truediv_def truncate_rat_def truncate_toward_zero_def)
  next
    case 3
    then have p: "0 < - a" by simp
    with assms have b: "- a < 100 * 2 ^ 47" by simp
    obtain r where r: "0 < r" "double_of_rat (- (of_int (- a) / 100)) = Finite (- r)"
      "\<lfloor>r\<rfloor> = (- a) div 100"
      using pos_quotient_trunc [OF p b] by blast
    have q: "(of_int a / 100 :: rat) = - (of_int (- a) / 100)" by simp
    have fl: "\<lfloor>(of_int (- a) / 100 :: rat)\<rfloor> = (- a) div 100"
      using floor_divide_of_int_eq [of "- a" 100, where ?'a = rat] by simp
    have neg: "(of_int a / 100 :: rat) < 0" using 3 by simp
    have d: "double_of_rat (of_int a / 100) = Finite (- r)"
      using r(2) by (simp only: q)
    have t1: "truncate_rat (- r) = - ((- a) div 100)"
      using r(1,3) by (simp add: truncate_rat_def ceiling_def)
    have t2: "truncate_toward_zero (of_int a / 100) = - ((- a) div 100)"
      using neg fl by (simp add: truncate_toward_zero_def)
    show ?thesis
      using d t1 t2 by (simp add: int_truediv_def)
  qed
qed

section \<open>A rebalance command at the start of the input\<close>

lemma main_build:
  "build_investor ''John Doe'' [''Equity'', ''Debt'', ''Gold''] [60, 30, 10] =
   Inr \<lparr>investor_name = ''John Doe'',
        assets = [(''Equity'', \<lparr>asset_name = ''Equity'', allocation = 0, weight = 60\<rparr>),
                  (''Debt'', \<lparr>asset_name = ''Debt'', allocation = 0, weight = 30\<rparr>),
                  (''Gold'', \<lparr>asset_name = ''Gold'', allocation = 0, weight = 10\<rparr>)],
        sip = [(''Equity'', Finite 0), (''Debt'', Finite 0), (''Gold'', Finite 0)]\<rparr>"
  by (simp add: build_investor_def Asset_init_def set_allocation_def set_weight_def
      bank_rounding_system_def dict_of_def InvestorPortfolio_init_def)

lemma parse_rebalance_first:
  "parse_list_2_commands [[''REBALANCE'']] order =
     ([\<lparr>cmd_name = ''rebalance'', cmd_values = [], cmd_month = 0\<rparr>], None)"
  "parse_list_2_commands [[''REBALANCE''], [''BALANCE'']] order =
     ([\<lparr>cmd_name = ''rebalance'', cmd_values = [], cmd_month = 0\<rparr>,
       \<lparr>cmd_name = ''balance'', cmd_values = [], cmd_month = 0\<rparr>], None)"
  by (simp_all add: parse_eval)

lemma execute_rebalance_first:
  assumes "current_month b = None"
  shows "execute_investor_commands b n [[''REBALANCE'']] order = (b, [], Some AttributeError)"
    and "execute_investor_commands b n [[''REBALANCE''], [''BALANCE'']] order
          = (b, [], Some AttributeError)"
  unfolding execute_investor_commands_def parse_rebalance_first
  using assms by (simp_all add: dispatch_def bank_rebalance_def)

text \<open>
  C3. The input whose first command is \<open>REBALANCE\<close>: the line is parsed to a rebalance
  command; the bank built by the constructor has no current month, so the month is
  neither 6 nor 12; yet the command prints nothing and raises \<open>AttributeError\<close> at the
  read of \<open>current_month\<close>, and the run ends there: a \<open>BALANCE\<close> line that follows is
  not processed. The line \<open>CANNOT_REBALANCE\<close> is not printed.
\<close>

theorem rebalance_first_command_raises:
  "parse_list_2_commands [[''REBALANCE'']] [''Equity'', ''Debt'', ''Gold'']
     = ([\<lparr>cmd_name = ''rebalance'', cmd_values = [], cmd_month = 0\<rparr>], None)
   \<and> current_month (MoneyBank_init [scenario_investor]) \<noteq> Some 6
   \<and> current_month (MoneyBank_init [scenario_investor]) \<noteq> Some 12
   \<and> bank_rebalance (MoneyBank_init [scenario_investor]) ''John Doe''
       = (MoneyBank_init [scenario_investor], [], Inl AttributeError)
   \<and> execute_investor_commands (MoneyBank_init [scenario_investor]) ''John Doe''
         [[''REBALANCE''], [''BALANCE'']] [''Equity'', ''Debt'']
       = (MoneyBank_init [scenario_investor], [], Some AttributeError)
   \<and> main [[''REBALANCE'']] = ([], Some AttributeError)
   \<and> main [[''REBALANCE''], [''BALANCE'']] = ([], Some AttributeError)
   \<and> fst (main [[''REBALANCE'']]) \<noteq> [''CANNOT_REBALANCE'']"
proof -
  have m: "main [[''REBALANCE'']] = ([], Some AttributeError)"
    "main [[''REBALANCE''], [''BALANCE'']] = ([], Some AttributeError)"
    unfolding main_def main_with_def main_build
    by (simp_all add: execute_rebalance_first del: parse_list_2_commands.simps)
  have e: "execute_investor_commands (MoneyBank_init [scenario_investor]) ''John Doe''
         [[''REBALANCE''], [''BALANCE'']] [''Equity'', ''Debt'']
       = (MoneyBank_init [scenario_investor], [], Some AttributeError)"
    by (rule execute_rebalance_first) simp
  have r: "bank_rebalance (MoneyBank_init [scenario_investor]) ''John Doe''
       = (MoneyBank_init [scenario_investor], [], Inl AttributeError)"
    by (simp add: bank_rebalance_def)
  show ?thesis
    unfolding m e r parse_rebalance_first by simp
qed

section \<open>Rebalancing\<close>

lemma truncate_toward_zero_error: "\<bar>of_int (truncate_toward_zero x) - x\<bar> < 1"
proof (cases "x < 0")
  case True
  have t: "truncate_toward_zero x = - \<lfloor>- x\<rfloor>"
    using True by (simp add: truncate_toward_zero_def)
  have "of_int \<lfloor>- x\<rfloor> \<le> - x" "- x < of_int \<lfloor>- x\<rfloor> + 1" by linarith+
  then show ?thesis unfolding t of_int_minus by linarith
next
  case False
  have t: "truncate_toward_zero x = \<lfloor>x\<rfloor>"
    using False by (simp add: truncate_toward_zero_def)
  have "of_int \<lfloor>x\<rfloor> \<le> x" "x < of_int \<lfloor>x\<rfloor> + 1" by linarith+
  then show ?thesis unfolding t by linarith
qed

lemma truncate_toward_zero_magnitude: "\<bar>of_int (truncate_toward_zero x)\<bar> \<le> \<bar>x\<bar>"
proof (cases "x < 0")
  case True
  have t: "truncate_toward_zero x = - \<lfloor>- x\<rfloor>"
    using True by (simp add: truncate_toward_zero_def)
  have "of_int \<lfloor>- x\<rfloor> \<le> - x" by linarith
  moreover have "(0::rat) \<le> of_int \<lfloor>- x\<rfloor>" using True by simp
  ultimately show ?thesis unfolding t of_int_minus using True by linarith
next
  case False
  have t: "truncate_toward_zero x = \<lfloor>x\<rfloor>"
    using False by (simp add: truncate_toward_zero_def)
  have "of_int \<lfloor>x\<rfloor> \<le> x" by linarith
  moreover have "(0::rat) \<le> of_int \<lfloor>x\<rfloor>" using False by simp
  ultimately show ?thesis unfolding t using False by linarith
qed

lemma set_allocation_finite:
  "set_allocation a (PFloat (Finite r)) = Inr (a\<lparr>allocation := truncate_rat r\<rparr>)"
  by (simp add: set_allocation_def bank_rounding_system_def)

lemma rebalance_loop_exact:
  assumes "\<forall>(k, a) \<in> set as. \<bar>tot * weight a\<bar> < 100 * 2 ^ 47"
  shows "rebalance_loop tot as =
     (map (\<lambda>(k, a). (k, a\<lparr>allocation :=
                 truncate_toward_zero (of_int (tot * weight a) / 100)\<rparr>)) as, None)"
  using assms
proof (induction as)
  case Nil
  then show ?case by simp
next
  case (Cons x as)
  obtain k a where x: "x = (k, a)" by (cases x)
  have b: "\<bar>tot * weight a\<bar> < 100 * 2 ^ 47" using Cons.prems by (simp add: x)
  obtain r where r: "int_truediv (tot * weight a) 100 = Inr (Finite r)"
    "truncate_rat r = truncate_toward_zero (of_int (tot * weight a) / 100)"
    using int_truediv_100_trunc [OF b] by blast
  have ih: "rebalance_loop tot as =
     (map (\<lambda>(k, a). (k, a\<lparr>allocation :=
                 truncate_toward_zero (of_int (tot * weight a) / 100)\<rparr>)) as, None)"
    using Cons.IH Cons.prems by simp
  show ?case
    by (simp add: x r set_allocation_finite ih)
qed

lemma sum_list_abs_less:
  fixes f :: "'a \<Rightarrow> rat"
  assumes "\<forall>x \<in> set xs. \<bar>f x\<bar> < 1" and "xs \<noteq> []"
  shows "\<bar>sum_list (map f xs)\<bar> < of_nat (length xs)"
  using assms
proof (induction xs)
  case Nil
  then show ?case by simp
next
  case (Cons x xs)
  show ?case
  proof (cases "xs = []")
    case True
    with Cons.prems show ?thesis by simp
  next
    case False
    then have "\<bar>sum_list (map f xs)\<bar> < of_nat (length xs)"
      using Cons.IH Cons.prems by simp
    moreover have "\<bar>f x\<bar> < 1" using Cons.prems by simp
    ultimately show ?thesis by (simp add: abs_if split: if_splits)
  qed
qed

lemma rebalanced_sum_close:
  fixes as :: "(string \<times> Asset) list"
  assumes "sum_list (map (\<lambda>(k, a). weight a) as) = 100"
  shows "\<bar>sum_list (map (\<lambda>(k, a). truncate_toward_zero (of_int (tot * weight a) / 100)) as)
          - tot\<bar> < int (length as)"
proof -
  have ne: "as \<noteq> []" using assms by auto
  define f :: "string \<times> Asset \<Rightarrow> rat" where
    "f = (\<lambda>(k, a). of_int (truncate_toward_zero (of_int (tot * weight a) / 100))
                     - of_int (tot * weight a) / 100)"
  have small: "\<forall>x \<in> set as. \<bar>f x\<bar> < 1"
    by (auto simp: f_def truncate_toward_zero_error)
  have s1: "sum_list (map (\<lambda>(k, a). (of_int (tot * weight a) / 100 :: rat)) as)
      = of_int tot * of_int (sum_list (map (\<lambda>(k, a). weight a) as)) / 100"
    by (induction as) (auto simp: algebra_simps add_divide_distrib)
  have s2: "sum_list (map f as) =
      of_int (sum_list (map (\<lambda>(k, a). truncate_toward_zero (of_int (tot * weight a) / 100)) as))
      - sum_list (map (\<lambda>(k, a). (of_int (tot * weight a) / 100 :: rat)) as)"
    by (induction as) (auto simp: f_def)
  have "sum_list (map f as) =
      of_int (sum_list (map (\<lambda>(k, a). truncate_toward_zero (of_int (tot * weight a) / 100)) as)
              - tot)"
    unfolding s2 s1 assms by simp
  then have "\<bar>(of_int (sum_list (map (\<lambda>(k, a). truncate_toward_zero (of_int (tot * weight a) / 100)) as)
              - tot) :: rat)\<bar> < of_nat (length as)"
    using sum_list_abs_less [OF small ne] by simp
  then have "(of_int \<bar>sum_list (map (\<lambda>(k, a). truncate_toward_zero (of_int (tot * weight a) / 100)) as)
              - tot\<bar> :: rat) < of_int (int (length as))"
    by simp
  then show ?thesis by (simp only: of_int_less_iff)
qed

text \<open>
  C4, as amended. For a portfolio whose weights sum to 100 and whose total allocation
  \<open>T\<close> satisfies \<open>\<bar>T * weight\<bar> < 100 * 2 ^ 47\<close> for every asset (any total below
  \<open>2 ^ 47\<close> in magnitude, with weights between 0 and 100), \<open>rebalance\<close> raises nothing
  and sets each asset's allocation to the exact quotient \<open>T * weight / 100\<close> truncated
  toward zero, \<open>T\<close> being the sum of the allocations before any of them is changed; and
  the sum of the allocations afterwards differs from \<open>T\<close> by less than the number of
  assets.
\<close>

theorem rebalance_truncates_quotients:
  assumes "sum_list (map (\<lambda>(k, a). weight a) (assets p)) = 100"
    and "\<forall>(k, a) \<in> set (assets p). \<bar>sum_list (balance p) * weight a\<bar> < 100 * 2 ^ 47"
  shows "rebalance p =
      (p\<lparr>assets := map (\<lambda>(k, a). (k, a\<lparr>allocation :=
             truncate_toward_zero (of_int (sum_list (balance p) * weight a) / 100)\<rparr>))
           (assets p)\<rparr>, None)
    \<and> \<bar>sum_list (balance (fst (rebalance p))) - sum_list (balance p)\<bar>
        < int (length (assets p))"
proof -
  have r: "rebalance p =
      (p\<lparr>assets := map (\<lambda>(k, a). (k, a\<lparr>allocation :=
             truncate_toward_zero (of_int (sum_list (balance p) * weight a) / 100)\<rparr>))
           (assets p)\<rparr>, None)"
    by (simp add: rebalance_def rebalance_loop_exact [OF assms(2)])
  have b: "balance (fst (rebalance p)) =
      map (\<lambda>(k, a). truncate_toward_zero (of_int (sum_list (balance p) * weight a) / 100))
        (assets p)"
    by (simp add: r balance_def case_prod_unfold comp_def)
  have s: "\<bar>sum_list (balance (fst (rebalance p))) - sum_list (balance p)\<bar>
        < int (length (assets p))"
    using rebalanced_sum_close [OF assms(1), of "sum_list (balance p)"] by (simp only: b)
  show ?thesis using r s by (intro conjI)
qed

lemma double_large_60:
  "double_of_rat 60000000000000000600 = Finite 60000000000000000000"
  by (rule double_of_rat_pos_near [where e = 65 and m = 7324218750000000])
    (simp_all add: pow2_def)

lemma double_large_40:
  "double_of_rat 40000000000000000400 = Finite 40000000000000000000"
  by (rule double_of_rat_pos_near [where e = 65 and m = 4882812500000000])
    (simp_all add: pow2_def)

lemma rebalance_large:
  "rebalance large_investor =
     (large_investor\<lparr>assets :=
        [(''Equity'', \<lparr>asset_name = ''Equity'', allocation = 60000000000000000000,
                        weight = 60\<rparr>),
         (''Debt'', \<lparr>asset_name = ''Debt'', allocation = 40000000000000000000,
                      weight = 40\<rparr>)]\<rparr>, None)"
  by (simp add: rebalance_def large_investor_def balance_def int_truediv_def
      double_large_60 double_large_40 set_allocation_def bank_rounding_system_def)

text \<open>
  C4, as the specification states it, fails on the portfolio that holds \<open>10 ^ 20\<close> and
  1000 with the weights 60 and 40: the quotient \<open>total * 60 / 100\<close> is a float, rounded
  to 53 bits before it is truncated, so Equity becomes \<open>6 * 10 ^ 19\<close> where the truncated
  exact quotient is \<open>6 * 10 ^ 19 + 600\<close>, and the sum of the allocations drops by 1000,
  more than the number of assets.
\<close>

theorem rebalance_large_total_counterexample:
  "sum_list (balance large_investor) = 100000000000000001000
   \<and> snd (rebalance large_investor) = None
   \<and> balance (fst (rebalance large_investor))
       = [60000000000000000000, 40000000000000000000]
   \<and> truncate_toward_zero (of_int (sum_list (balance large_investor) * 60) / 100)
       = 60000000000000000600
   \<and> truncate_toward_zero (of_int (sum_list (balance large_investor) * 40) / 100)
       = 40000000000000000400
   \<and> sum_list (balance large_investor) - sum_list (balance (fst (rebalance large_investor)))
       = 1000
   \<and> \<not> \<bar>sum_list (balance (fst (rebalance large_investor)))
          - sum_list (balance large_investor)\<bar> \<le> int (length (assets large_investor))"
proof -
  have s: "sum_list (balance large_investor) = 100000000000000001000"
    by (simp add: large_investor_def balance_def)
  have b: "balance (fst (rebalance large_investor))
       = [60000000000000000000, 40000000000000000000]"
    by (simp add: rebalance_large balance_def)
  have l: "length (assets large_investor) = 2" by (simp add: large_investor_def)
  show ?thesis
    unfolding s b l by (simp add: rebalance_large truncate_toward_zero_def)
qed

text \<open>
  The witness for C4: the portfolio holding 6601 and 3000 (total 9601) is rebalanced to
  5760 and 3840, the truncations of 5760.6 and 3840.4; the sum drops by 1.
\<close>

theorem rebalance_truncates_quotients_witness:
  "sum_list (map (\<lambda>(k, a). weight a) (assets small_investor)) = 100
   \<and> sum_list (balance small_investor) = 9601
   \<and> \<bar>9601 * 60\<bar> < (100 * 2 ^ 47 :: int) \<and> \<bar>9601 * 40\<bar> < (100 * 2 ^ 47 :: int)
   \<and> rebalance small_investor =
       (small_investor\<lparr>assets :=
          [(''Equity'', \<lparr>asset_name = ''Equity'', allocation = 5760, weight = 60\<rparr>),
           (''Debt'', \<lparr>asset_name = ''Debt'', allocation = 3840, weight = 40\<rparr>)]\<rparr>, None)
   \<and> balance (fst (rebalance small_investor)) = [5760, 3840]
   \<and> \<bar>sum_list (balance (fst (rebalance small_investor))) - sum_list (balance small_investor)\<bar>
       < int (length (assets small_investor))"
proof -
  have w: "sum_list (map (\<lambda>(k, a). weight a) (assets small_investor)) = 100"
    by (simp add: small_investor_def)
  have s: "sum_list (balance small_investor) = 9601"
    by (simp add: small_investor_def balance_def)
  have h: "\<forall>(k, a) \<in> set (assets small_investor).
             \<bar>sum_list (balance small_investor) * weight a\<bar> < 100 * 2 ^ 47"
    unfolding s by (simp add: small_investor_def)
  note t = rebalance_truncates_quotients [OF w h]
  have r: "rebalance small_investor =
       (small_investor\<lparr>assets :=
          [(''Equity'', \<lparr>asset_name = ''Equity'', allocation = 5760, weight = 60\<rparr>),
           (''Debt'', \<lparr>asset_name = ''Debt'', allocation = 3840, weight = 40\<rparr>)]\<rparr>, None)"
    unfolding conjunct1 [OF t] s
    by (simp add: small_investor_def truncate_toward_zero_def)
  have b: "balance (fst (rebalance small_investor)) = [5760, 3840]"
    by (simp add: r balance_def)
  show ?thesis
    using w s r b conjunct2 [OF t] by simp
qed

section \<open>The rounding of every store\<close>

lemma set_allocation_float:
  "set_allocation a (PFloat x) = Inr a' \<Longrightarrow>
     \<exists>r. x = Finite r \<and> a' = a\<lparr>allocation := truncate_toward_zero r\<rparr>"
  by (cases x) (auto simp: set_allocation_def bank_rounding_system_def truncate_rat_eq)

lemma rebalance_loop_stores:
  "snd (rebalance_loop tot as) = None \<Longrightarrow>
     list_all2 (\<lambda>(k, a) (k', a'). k' = k \<and>
         (\<exists>r. int_truediv (tot * weight a) 100 = Inr (Finite r)
              \<and> a' = a\<lparr>allocation := truncate_toward_zero r\<rparr>))
       as (fst (rebalance_loop tot as))"
proof (induction as)
  case Nil
  then show ?case by simp
next
  case (Cons x as)
  obtain k a where x: "x = (k, a)" by (cases x)
  from Cons.prems obtain y where y: "int_truediv (tot * weight a) 100 = Inr y"
    by (auto simp: x split: sum.splits)
  from Cons.prems obtain a' where a': "set_allocation a (PFloat y) = Inr a'"
    by (auto simp: x y split: sum.splits)
  obtain r where r: "y = Finite r" "a' = a\<lparr>allocation := truncate_toward_zero r\<rparr>"
    using set_allocation_float [OF a'] by blast
  have rest: "snd (rebalance_loop tot as) = None"
    using Cons.prems by (simp add: x y a' split: prod.splits)
  have step: "rebalance_loop tot ((k, a) # as) =
      ((k, a') # fst (rebalance_loop tot as), snd (rebalance_loop tot as))"
    by (simp add: y a' split: prod.splits)
  show ?case
    unfolding x step using Cons.IH [OF rest] y r by simp
qed

lemma truncate_toward_zero_of_int [simp]: "truncate_toward_zero (of_int i) = i"
  by (simp add: truncate_toward_zero_def)

text \<open>
  C8. Every store into an asset's allocation holds the truncation toward zero of the
  amount computed: the setter keeps an int as it is, stores the truncation of a finite
  float and raises on an infinity or a NaN, storing nothing; the constructor stores
  through the setter; \<open>allocation += value\<close> (allocate and the recurring contribution),
  \<open>allocation *= 1 + rate\<close> (the rate change) and the assignment of rebalance, whenever
  they return, have computed a finite float \<open>r\<close> and stored its truncation. The value
  stored is an integer, between zero and the amount, less than 1 away from it.
\<close>

theorem allocation_stores_truncation:
  "set_allocation a (PInt i) = Inr (a\<lparr>allocation := truncate_toward_zero (of_int i)\<rparr>)
   \<and> set_allocation a (PFloat (Finite r)) = Inr (a\<lparr>allocation := truncate_toward_zero r\<rparr>)
   \<and> set_allocation a (PFloat PosInf) = Inl OverflowError
   \<and> set_allocation a (PFloat NegInf) = Inl OverflowError
   \<and> set_allocation a (PFloat NaN) = Inl ValueError
   \<and> (Asset_init n (PFloat x) w = Inr a' \<longrightarrow>
        (\<exists>q. x = Finite q \<and> allocation a' = truncate_toward_zero q))
   \<and> (add_allocation a v = Inr a' \<longrightarrow>
        (\<exists>q. int_add_float (allocation a) v = Inr (Finite q)
             \<and> a' = a\<lparr>allocation := truncate_toward_zero q\<rparr>))
   \<and> (monthly_rate_of_change a rate = Inr a' \<longrightarrow>
        (\<exists>f q. int_add_float 1 rate = Inr f
             \<and> int_mul_float (allocation a) f = Inr (Finite q)
             \<and> a' = a\<lparr>allocation := truncate_toward_zero q\<rparr>))
   \<and> (snd (rebalance_loop tot as) = None \<longrightarrow>
        list_all2 (\<lambda>(k, a) (k', a'). k' = k \<and>
            (\<exists>q. int_truediv (tot * weight a) 100 = Inr (Finite q)
                 \<and> a' = a\<lparr>allocation := truncate_toward_zero q\<rparr>))
          as (fst (rebalance_loop tot as)))
   \<and> \<bar>of_int (truncate_toward_zero r) - r\<bar> < 1
   \<and> \<bar>of_int (truncate_toward_zero r)\<bar> \<le> \<bar>r\<bar>"
proof -
  have c1: "set_allocation a (PInt i) = Inr (a\<lparr>allocation := truncate_toward_zero (of_int i)\<rparr>)"
    by (simp add: set_allocation_def bank_rounding_system_def)
  have c2: "set_allocation a (PFloat (Finite r)) = Inr (a\<lparr>allocation := truncate_toward_zero r\<rparr>)"
    by (simp add: set_allocation_def bank_rounding_system_def truncate_rat_eq)
  have c3: "set_allocation a (PFloat PosInf) = Inl OverflowError"
    "set_allocation a (PFloat NegInf) = Inl OverflowError"
    "set_allocation a (PFloat NaN) = Inl ValueError"
    by (simp_all add: set_allocation_def bank_rounding_system_def)
  have c4: "\<exists>q. x = Finite q \<and> allocation a' = truncate_toward_zero q"
    if h: "Asset_init n (PFloat x) w = Inr a'"
  proof -
    from h obtain a0 where a0:
      "set_allocation \<lparr>asset_name = n, allocation = 0, weight = 0\<rparr> (PFloat x) = Inr a0"
      "set_weight a0 w = Inr a'"
      by (auto simp: Asset_init_def split: sum.splits)
    obtain q where q: "x = Finite q"
      "a0 = \<lparr>asset_name = n, allocation = 0, weight = 0\<rparr>\<lparr>allocation := truncate_toward_zero q\<rparr>"
      using set_allocation_float [OF a0(1)] by blast
    have "allocation a' = allocation a0"
      using a0(2) by (auto simp: set_weight_def split: if_splits)
    then show ?thesis using q by simp
  qed
  have c5: "\<exists>q. int_add_float (allocation a) v = Inr (Finite q)
             \<and> a' = a\<lparr>allocation := truncate_toward_zero q\<rparr>"
    if h: "add_allocation a v = Inr a'"
  proof -
    from h obtain y where y: "int_add_float (allocation a) v = Inr y"
      "set_allocation a (PFloat y) = Inr a'"
      by (auto simp: add_allocation_def split: sum.splits)
    show ?thesis using set_allocation_float [OF y(2)] y(1) by auto
  qed
  have c6: "\<exists>f q. int_add_float 1 rate = Inr f
             \<and> int_mul_float (allocation a) f = Inr (Finite q)
             \<and> a' = a\<lparr>allocation := truncate_toward_zero q\<rparr>"
    if h: "monthly_rate_of_change a rate = Inr a'"
  proof -
    from h obtain f y where y: "int_add_float 1 rate = Inr f"
      "int_mul_float (allocation a) f = Inr y"
      "set_allocation a (PFloat y) = Inr a'"
      by (auto simp: monthly_rate_of_change_def split: sum.splits)
    show ?thesis using set_allocation_float [OF y(3)] y(1,2) by auto
  qed
  show ?thesis
    using c1 c2 c3 c4 c5 c6 rebalance_loop_stores [of tot as]
      truncate_toward_zero_error [of r] truncate_toward_zero_magnitude [of r]
    by (intro conjI impI)
qed

lemma double_of_rat_neg_near:
  assumes "pow2 e \<le> x" and "x < pow2 (e + 1)"
    and "\<bar>x / pow2 (max (e - 52) (- 1074)) - of_int m\<bar> < 1 / 2"
    and "r = of_int m * pow2 (max (e - 52) (- 1074))"
    and "r < pow2 1024"
  shows "double_of_rat (- x) = Finite (- r)"
proof (rule double_of_rat_neg_eval [OF assms(1,2)])
  show "r = of_int (round_half_even (x / pow2 (max (e - 52) (- 1074)))) * pow2 (max (e - 52) (- 1074))"
    by (simp only: round_half_even_nearest [OF assms(3)] assms(4))
  show "r < pow2 1024" by (rule assms(5))
qed

lemma double_minus_five_halves: "double_of_rat (- (5 / 2)) = Finite (- (5 / 2))"
  by (rule double_of_rat_neg_near [where e = 1 and m = 5629499534213120])
    (simp_all add: pow2_def)

lemma add_allocation_example:
  "add_allocation \<lparr>asset_name = ''Debt'', allocation = - 3, weight = 40\<rparr> (Finite (1 / 2))
     = Inr \<lparr>asset_name = ''Debt'', allocation = - 2, weight = 40\<rparr>"
  by (simp add: add_allocation_def int_add_float_def float_of_int_exact
      double_minus_five_halves set_allocation_def bank_rounding_system_def truncate_rat_eq
      truncate_toward_zero_def)

lemma rate_change_example:
  "monthly_rate_of_change \<lparr>asset_name = ''Equity'', allocation = 6000, weight = 60\<rparr>
       (Finite (3602879701896397 / 36028797018963968))
     = Inr \<lparr>asset_name = ''Equity'', allocation = 6600, weight = 60\<rparr>"
  by (simp add: engine_eval)

lemma asset_init_example:
  "Asset_init ''Gold'' (PFloat (Finite (7 / 2))) 10
     = Inr \<lparr>asset_name = ''Gold'', allocation = 3, weight = 10\<rparr>"
  by (simp add: Asset_init_def set_allocation_def bank_rounding_system_def set_weight_def)

lemma rebalance_loop_example:
  "rebalance_loop 9601 (assets small_investor) =
     ([(''Equity'', \<lparr>asset_name = ''Equity'', allocation = 5760, weight = 60\<rparr>),
       (''Debt'', \<lparr>asset_name = ''Debt'', allocation = 3840, weight = 40\<rparr>)], None)"
proof -
  have "\<forall>(k, a) \<in> set (assets small_investor). \<bar>9601 * weight a\<bar> < 100 * 2 ^ 47"
    by (simp add: small_investor_def)
  from rebalance_loop_exact [OF this] show ?thesis
    by (simp add: small_investor_def truncate_toward_zero_def)
qed

text \<open>
  The witness for C8: \<open>- 3 + 0.5\<close> is stored as \<open>- 2\<close> (toward zero, not the floor
  \<open>- 3\<close>); 6000 times \<open>1 + 0.1\<close> is stored as 6600; the constructor stores 3 for 3.5;
  rebalancing a total of 9601 stores 5760 and 3840.
\<close>

theorem allocation_stores_truncation_witness:
  "add_allocation \<lparr>asset_name = ''Debt'', allocation = - 3, weight = 40\<rparr> (Finite (1 / 2))
     = Inr \<lparr>asset_name = ''Debt'', allocation = - 2, weight = 40\<rparr>
   \<and> (\<exists>q. int_add_float (allocation \<lparr>asset_name = ''Debt'', allocation = - 3, weight = 40\<rparr>)
              (Finite (1 / 2)) = Inr (Finite q)
          \<and> \<lparr>asset_name = ''Debt'', allocation = - 2, weight = 40\<rparr>
              = \<lparr>asset_name = ''Debt'', allocation = - 3, weight = 40\<rparr>
                  \<lparr>allocation := truncate_toward_zero q\<rparr>)
   \<and> monthly_rate_of_change \<lparr>asset_name = ''Equity'', allocation = 6000, weight = 60\<rparr>
         (Finite (3602879701896397 / 36028797018963968))
       = Inr \<lparr>asset_name = ''Equity'', allocation = 6600, weight = 60\<rparr>
   \<and> (\<exists>f q. int_add_float 1 (Finite (3602879701896397 / 36028797018963968)) = Inr f
          \<and> int_mul_float (allocation \<lparr>asset_name = ''Equity'', allocation = 6000, weight = 60\<rparr>) f
              = Inr (Finite q)
          \<and> \<lparr>asset_name = ''Equity'', allocation = 6600, weight = 60\<rparr>
              = \<lparr>asset_name = ''Equity'', allocation = 6000, weight = 60\<rparr>
                  \<lparr>allocation := truncate_toward_zero q\<rparr>)
   \<and> Asset_init ''Gold'' (PFloat (Finite (7 / 2))) 10
       = Inr \<lparr>asset_name = ''Gold'', allocation = 3, weight = 10\<rparr>
   \<and> (\<exists>q. Finite (7 / 2) = Finite q
          \<and> allocation \<lparr>asset_name = ''Gold'', allocation = 3, weight = 10\<rparr>
              = truncate_toward_zero q)
   \<and> snd (rebalance_loop 9601 (assets small_investor)) = None
   \<and> list_all2 (\<lambda>(k, a) (k', a'). k' = k \<and>
            (\<exists>q. int_truediv (9601 * weight a) 100 = Inr (Finite q)
                 \<and> a' = a\<lparr>allocation := truncate_toward_zero q\<rparr>))
          (assets small_investor) (fst (rebalance_loop 9601 (assets small_investor)))
   \<and> balance (small_investor\<lparr>assets := fst (rebalance_loop 9601 (assets small_investor))\<rparr>)
       = [5760, 3840]
   \<and> truncate_toward_zero (- (5 / 2)) = - 2
   \<and> truncate_toward_zero (7 / 2) = 3"
proof -
  note t = allocation_stores_truncation
  note t6 = t [THEN conjunct2, THEN conjunct2, THEN conjunct2, THEN conjunct2, THEN conjunct2,
      THEN conjunct1, THEN mp]
  note t7 = t [THEN conjunct2, THEN conjunct2, THEN conjunct2, THEN conjunct2, THEN conjunct2,
      THEN conjunct2, THEN conjunct1, THEN mp]
  note t8 = t [THEN conjunct2, THEN conjunct2, THEN conjunct2, THEN conjunct2, THEN conjunct2,
      THEN conjunct2, THEN conjunct2, THEN conjunct1, THEN mp]
  note t9 = t [THEN conjunct2, THEN conjunct2, THEN conjunct2, THEN conjunct2, THEN conjunct2,
      THEN conjunct2, THEN conjunct2, THEN conjunct2, THEN conjunct1, THEN mp]
  have h: "snd (rebalance_loop 9601 (assets small_investor)) = None"
    by (simp add: rebalance_loop_example)
  have b: "balance (small_investor\<lparr>assets := fst (rebalance_loop 9601 (assets small_investor))\<rparr>)
       = [5760, 3840]"
    by (simp add: rebalance_loop_example balance_def)
  have v: "truncate_toward_zero (- (5 / 2)) = - 2" "truncate_toward_zero (7 / 2) = 3"
    by (simp_all add: truncate_toward_zero_def)
  show ?thesis
    using add_allocation_example t7 [OF add_allocation_example]
      rate_change_example t8 [OF rate_change_example]
      asset_init_example t6 [OF asset_init_example]
      h t9 [OF h] b v
    by (intro conjI)
qed

end
